theory Spec2Isabelle
  imports Main "HOL-Library.Char_ord" "HOL-Library.List_Lexorder"
begin

section \<open>Python values, dictionaries and exceptions\<close>

text \<open>
  The module \<^verbatim>\<open>bemani/data/api/user.py\<close> works on untyped JSON-like payloads.  A payload
  is a tree of values; a dictionary keeps its keys in insertion order, so it is an
  association list whose first binding of a key is the live one.
\<close>

datatype py_error = KeyError | ValueError | TypeError | AttributeError | IndexError

datatype pyval =
    PNone
  | PBool bool
  | PInt int
  | PStr string
  | PList "pyval list"
  | PDict "(string \<times> pyval) list"

type_synonym pydict = "(string \<times> pyval) list"

text \<open>\<^verbatim>\<open>k in d\<close>\<close>

definition has_key :: "('k \<times> 'v) list \<Rightarrow> 'k \<Rightarrow> bool" where
  "has_key d k = (map_of d k \<noteq> None)"

text \<open>\<^verbatim>\<open>d.get(k, default)\<close>\<close>

definition dict_get :: "('k \<times> 'v) list \<Rightarrow> 'k \<Rightarrow> 'v \<Rightarrow> 'v" where
  "dict_get d k dflt = (case map_of d k of None \<Rightarrow> dflt | Some v \<Rightarrow> v)"

text \<open>\<^verbatim>\<open>d[k]\<close>, which raises \<^verbatim>\<open>KeyError\<close> on a missing key.\<close>

definition getitem :: "('k \<times> 'v) list \<Rightarrow> 'k \<Rightarrow> py_error + 'v" where
  "getitem d k = (case map_of d k of None \<Rightarrow> Inl KeyError | Some v \<Rightarrow> Inr v)"

text \<open>\<^verbatim>\<open>d[k] = v\<close>: an existing key keeps its position, a new key goes last.\<close>

primrec setitem :: "('k \<times> 'v) list \<Rightarrow> 'k \<Rightarrow> 'v \<Rightarrow> ('k \<times> 'v) list" where
  "setitem [] k v = [(k, v)]"
| "setitem (e # d) k v = (if fst e = k then (k, v) # d else e # setitem d k v)"

text \<open>The effect of \<^verbatim>\<open>del d[k]\<close> on a dictionary that has the key.\<close>

primrec remove_key :: "('k \<times> 'v) list \<Rightarrow> 'k \<Rightarrow> ('k \<times> 'v) list" where
  "remove_key [] k = []"
| "remove_key (e # d) k = (if fst e = k then remove_key d k else e # remove_key d k)"

text \<open>\<^verbatim>\<open>del d[k]\<close>, which raises \<^verbatim>\<open>KeyError\<close> on a missing key.\<close>

definition delitem :: "('k \<times> 'v) list \<Rightarrow> 'k \<Rightarrow> py_error + ('k \<times> 'v) list" where
  "delitem d k = (if has_key d k then Inr (remove_key d k) else Inl KeyError)"

text \<open>\<^verbatim>\<open>base.update(updates)\<close>\<close>

definition dict_update :: "('k \<times> 'v) list \<Rightarrow> ('k \<times> 'v) list \<Rightarrow> ('k \<times> 'v) list" where
  "dict_update base updates = fold (\<lambda>(k, v) b. setitem b k v) updates base"

text \<open>
  \<^verbatim>\<open>updates[k1][k2] = v\<close> where \<^verbatim>\<open>updates[k1]\<close> is a dictionary (the only use in
  the module is on the \<^verbatim>\<open>'qpro'\<close> entry, which the same function has just created).
\<close>

definition setitem_in :: "pydict \<Rightarrow> string \<Rightarrow> string \<Rightarrow> pyval \<Rightarrow> pydict" where
  "setitem_in d k1 k2 v =
     (case map_of d k1 of
        Some (PDict inner) \<Rightarrow> setitem d k1 (PDict (setitem inner k2 v))
      | _ \<Rightarrow> d)"

subsection \<open>ValidatedDict\<close>

text \<open>
  Modelled from the spec: the class \<^verbatim>\<open>ValidatedDict\<close> of \<^verbatim>\<open>bemani.common\<close> is not among
  the sources.  The specification reads a field as present when it is there with an
  integer value, and treats a malformed or missing field as absent: \<^verbatim>\<open>get_int\<close> gives the
  default then, and \<^verbatim>\<open>get_dict\<close> an empty dictionary.
\<close>

definition get_int :: "pydict \<Rightarrow> string \<Rightarrow> int \<Rightarrow> int" where
  "get_int d name dflt = (case map_of d name of Some (PInt i) \<Rightarrow> i | _ \<Rightarrow> dflt)"

definition get_dict :: "pydict \<Rightarrow> string \<Rightarrow> pydict" where
  "get_dict d name = (case map_of d name of Some (PDict q) \<Rightarrow> q | _ \<Rightarrow> [])"

section \<open>Games\<close>

text \<open>
  The enumeration \<^verbatim>\<open>GameConstants\<close> is declared in \<^verbatim>\<open>bemani.common\<close>.  The module names
  seven of its members; \<open>OTHER_GAME\<close> stands for the members it does not name.  The wire
  value of each member (\<^verbatim>\<open>game.value\<close>) is a parameter \<open>gv\<close> of the functions below, and
  \<^verbatim>\<open>GameConstants(x)\<close> looks a value up in declaration order, raising \<^verbatim>\<open>ValueError\<close> when
  no member has it.
\<close>

datatype GameConstants =
  DDR | IIDX | JUBEAT | MUSECA | POPN_MUSIC | REFLEC_BEAT | SDVX | OTHER_GAME

definition all_games :: "GameConstants list" where
  "all_games = [DDR, IIDX, JUBEAT, MUSECA, POPN_MUSIC, REFLEC_BEAT, SDVX, OTHER_GAME]"

definition GameConstants_of :: "(GameConstants \<Rightarrow> string) \<Rightarrow> pyval \<Rightarrow> py_error + GameConstants" where
  "GameConstants_of gv x =
     (case x of
        PStr s \<Rightarrow>
          (case find (\<lambda>g. gv g = s) all_games of
             None \<Rightarrow> Inl ValueError
           | Some g \<Rightarrow> Inr g)
      | _ \<Rightarrow> Inl ValueError)"

section \<open>The profile normalizer\<close>

definition format_ddr_profile :: "pydict \<Rightarrow> pydict" where
  "format_ddr_profile profile =
     (let updates = [];
          area = get_int profile ''area'' (- 1);
          updates = (if area \<noteq> - 1 then setitem updates ''area'' (PInt area) else updates)
      in updates)"

definition format_iidx_profile :: "pydict \<Rightarrow> pydict" where
  "format_iidx_profile profile =
     (let updates = [(''qpro'', PDict [])];
          area = get_int profile ''area'' (- 1);
          updates = (if area \<noteq> - 1 then setitem updates ''pid'' (PInt area) else updates);
          qpro = get_dict profile ''qpro'';
          head = get_int qpro ''head'' (- 1);
          updates = (if head \<noteq> - 1 then setitem_in updates ''qpro'' ''head'' (PInt head) else updates);
          hair = get_int qpro ''hair'' (- 1);
          updates = (if hair \<noteq> - 1 then setitem_in updates ''qpro'' ''hair'' (PInt hair) else updates);
          face = get_int qpro ''face'' (- 1);
          updates = (if face \<noteq> - 1 then setitem_in updates ''qpro'' ''face'' (PInt face) else updates);
          body = get_int qpro ''body'' (- 1);
          updates = (if body \<noteq> - 1 then setitem_in updates ''qpro'' ''body'' (PInt body) else updates);
          hand = get_int qpro ''hand'' (- 1);
          updates = (if hand \<noteq> - 1 then setitem_in updates ''qpro'' ''hand'' (PInt hand) else updates)
      in updates)"

definition format_jubeat_profile :: "pydict \<Rightarrow> pydict" where
  "format_jubeat_profile profile = []"

definition format_museca_profile :: "pydict \<Rightarrow> pydict" where
  "format_museca_profile profile = []"

definition format_popn_profile :: "pydict \<Rightarrow> pydict" where
  "format_popn_profile profile =
     (let updates = [];
          chara = get_int profile ''character'' (- 1);
          updates = (if chara \<noteq> - 1 then setitem updates ''chara'' (PInt chara) else updates)
      in updates)"

definition format_reflec_profile :: "pydict \<Rightarrow> pydict" where
  "format_reflec_profile profile =
     (let updates = [];
          icon = get_int profile ''icon'' (- 1);
          updates = (if icon \<noteq> - 1
                     then setitem updates ''config'' (PDict [(''icon_id'', PInt icon)])
                     else updates)
      in updates)"

definition format_sdvx_profile :: "pydict \<Rightarrow> pydict" where
  "format_sdvx_profile profile = []"

text \<open>
  \<^verbatim>\<open>__format_profile\<close>: the four subscripts raise \<^verbatim>\<open>KeyError\<close> on a missing key, the
  enumeration lookup raises \<^verbatim>\<open>ValueError\<close>; the seven tests run one after the other.
\<close>

definition format_profile :: "(GameConstants \<Rightarrow> string) \<Rightarrow> pydict \<Rightarrow> py_error + pydict" where
  "format_profile gv profile =
     (case getitem profile ''game'' of Inl e \<Rightarrow> Inl e | Inr g \<Rightarrow>
     (case getitem profile ''version'' of Inl e \<Rightarrow> Inl e | Inr v \<Rightarrow>
     (case getitem profile ''refid'' of Inl e \<Rightarrow> Inl e | Inr r \<Rightarrow>
     (case getitem profile ''extid'' of Inl e \<Rightarrow> Inl e | Inr x \<Rightarrow>
     (let base = [(''name'', dict_get profile ''name'' (PStr [])),
                  (''game'', g), (''version'', v), (''refid'', r), (''extid'', x)]
      in (case GameConstants_of gv g of Inl e \<Rightarrow> Inl e | Inr profilegame \<Rightarrow>
     (let base = (if profilegame = DDR then dict_update base (format_ddr_profile profile) else base);
          base = (if profilegame = IIDX then dict_update base (format_iidx_profile profile) else base);
          base = (if profilegame = JUBEAT then dict_update base (format_jubeat_profile profile) else base);
          base = (if profilegame = MUSECA then dict_update base (format_museca_profile profile) else base);
          base = (if profilegame = POPN_MUSIC then dict_update base (format_popn_profile profile) else base);
          base = (if profilegame = REFLEC_BEAT then dict_update base (format_reflec_profile profile) else base);
          base = (if profilegame = SDVX then dict_update base (format_sdvx_profile profile) else base)
      in Inr base)))))))"

section \<open>Collaborators\<close>

text \<open>
  \<^verbatim>\<open>RemoteUser\<close> (module \<^verbatim>\<open>bemani.data.remoteuser\<close>), the local store \<^verbatim>\<open>UserData\<close>
  (\<^verbatim>\<open>bemani.data.mysql.user\<close>) and the peer clients are used by the module and defined
  elsewhere: their operations are parameters.  A user id is an integer, a reference id a
  string, an external id an integer.
\<close>

datatype id_type = ID_TYPE_CARD | ID_TYPE_SERVER

record RemoteUser =
  RemoteUser_is_remote :: "int \<Rightarrow> bool"
  RemoteUser_card_to_userid :: "string \<Rightarrow> int"
  RemoteUser_userid_to_card :: "int \<Rightarrow> string"

record UserData =
  user_from_cardid :: "string \<Rightarrow> int option"
  user_from_refid :: "GameConstants \<Rightarrow> int \<Rightarrow> string \<Rightarrow> int option"
  user_from_extid :: "GameConstants \<Rightarrow> int \<Rightarrow> int \<Rightarrow> int option"
  user_get_refid :: "GameConstants \<Rightarrow> int \<Rightarrow> int \<Rightarrow> string"
  user_get_extid :: "GameConstants \<Rightarrow> int \<Rightarrow> int \<Rightarrow> int"
  user_get_profile :: "GameConstants \<Rightarrow> int \<Rightarrow> int \<Rightarrow> pydict option"
  user_get_any_profile :: "GameConstants \<Rightarrow> int \<Rightarrow> int \<Rightarrow> pydict option"
  user_get_any_profiles :: "GameConstants \<Rightarrow> int \<Rightarrow> int list \<Rightarrow> (int \<times> pydict option) list"
  user_get_all_cards :: "(string \<times> int) list"
  user_get_all_profiles :: "GameConstants \<Rightarrow> int \<Rightarrow> (int \<times> pydict) list"

type_synonym client = "GameConstants \<Rightarrow> int \<Rightarrow> id_type \<Rightarrow> string list \<Rightarrow> pydict list"

text \<open>
  The object \<^verbatim>\<open>self\<close>: the store \<^verbatim>\<open>self.user\<close>, the \<^verbatim>\<open>get_profiles\<close> method of each
  client of \<^verbatim>\<open>self.clients\<close> in configuration order, and the two module-level
  collaborators.  The last field is Python's own \<^verbatim>\<open>str.upper\<close>, which the module applies to
  every card of a record: it is a parameter too, so that nothing below depends on which
  letters it folds or on whether it keeps the length of a string.
\<close>

record GlobalUserData =
  user :: UserData
  clients :: "client list"
  remote :: RemoteUser
  game_value :: "GameConstants \<Rightarrow> string"
  str_upper :: "string \<Rightarrow> string"

text \<open>
  Modelled from the spec: the helper \<^verbatim>\<open>Parallel\<close> of \<^verbatim>\<open>bemani.common\<close> is not among the
  sources.  \<^verbatim>\<open>Parallel.call\<close> gives every function the same arguments and returns the
  results in the order of the functions; \<^verbatim>\<open>Parallel.flatten\<close> concatenates them, keeping
  the order of the peers and the order inside each response.
\<close>

definition Parallel_call :: "client list \<Rightarrow> GameConstants \<Rightarrow> int \<Rightarrow> id_type \<Rightarrow> string list \<Rightarrow> pydict list list" where
  "Parallel_call fs game version idtype ids = map (\<lambda>f. f game version idtype ids) fs"

definition Parallel_flatten :: "pydict list list \<Rightarrow> pydict list" where
  "Parallel_flatten rs = concat rs"

section \<open>Record objects\<close>

text \<open>
  The raw records are mutable objects, and the three retrieval functions differ in
  whether they write to a record or to a copy of it.  The objects live in a store, a
  list indexed by address: the records a fetch returns are the objects at addresses
  \<open>0, 1, \<dots>\<close> in the order of the flattened list, and \<^verbatim>\<open>copy.deepcopy\<close> allocates the
  next address.  A variable holding a record holds an address.  Every function that
  touches the store returns its result, a value or an exception, together with the
  store it leaves.
\<close>

type_synonym heap = "pydict list"

definition deepcopy :: "heap \<Rightarrow> nat \<Rightarrow> nat \<times> heap" where
  "deepcopy h p = (length h, h @ [h ! p])"

definition heap_delitem :: "heap \<Rightarrow> nat \<Rightarrow> string \<Rightarrow> py_error + heap" where
  "heap_delitem h p k =
     (case delitem (h ! p) k of Inl e \<Rightarrow> Inl e | Inr d \<Rightarrow> Inr (h[p := d]))"

definition heap_setitem :: "heap \<Rightarrow> nat \<Rightarrow> string \<Rightarrow> pyval \<Rightarrow> heap" where
  "heap_setitem h p k v = h[p := setitem (h ! p) k v]"

text \<open>
  \<^verbatim>\<open>[card.upper() for card in profile.get('cards', [])]\<close>.  A list is walked element by
  element and an element without \<^verbatim>\<open>upper\<close> raises \<^verbatim>\<open>AttributeError\<close>; a string is walked
  character by character and a dictionary key by key; any other value is not iterable.
  The first argument is \<^verbatim>\<open>str.upper\<close>.
\<close>

fun upper_all :: "(string \<Rightarrow> string) \<Rightarrow> pyval list \<Rightarrow> py_error + string list" where
  "upper_all upper [] = Inr []"
| "upper_all upper (PStr s # vs) =
     (case upper_all upper vs of Inl e \<Rightarrow> Inl e | Inr cs \<Rightarrow> Inr (upper s # cs))"
| "upper_all upper (v # vs) = Inl AttributeError"

definition get_cards :: "(string \<Rightarrow> string) \<Rightarrow> pydict \<Rightarrow> py_error + string list" where
  "get_cards upper profile =
     (case dict_get profile ''cards'' (PList []) of
        PList vs \<Rightarrow> upper_all upper vs
      | PStr s \<Rightarrow> Inr (map (\<lambda>c. upper [c]) s)
      | PDict d \<Rightarrow> Inr (map (\<lambda>e. upper (fst e)) d)
      | _ \<Rightarrow> Inl TypeError)"

section \<open>Retrieval of one profile\<close>

text \<open>
  The loop of \<^verbatim>\<open>__profile_request\<close> over the addresses of the fetched records.  The
  variable \<^verbatim>\<open>profile\<close> is rebound to the address of the copy before anything is written.
\<close>

fun profile_request_loop ::
  "GlobalUserData \<Rightarrow> GameConstants \<Rightarrow> int \<Rightarrow> bool \<Rightarrow> string \<Rightarrow> string \<Rightarrow> int \<Rightarrow>
   nat list \<Rightarrow> heap \<Rightarrow> (py_error + pydict option) \<times> heap" where
  "profile_request_loop self game version exact cardid refid extid [] h = (Inr None, h)"
| "profile_request_loop self game version exact cardid refid extid (profile # rest) h =
     (case get_cards (str_upper self) (h ! profile) of
        Inl e \<Rightarrow> (Inl e, h)
      | Inr cards \<Rightarrow>
          if cardid \<in> set cards then
            (case deepcopy h profile of (profile, h) \<Rightarrow>
             (case heap_delitem h profile ''cards'' of
                Inl e \<Rightarrow> (Inl e, h)
              | Inr h \<Rightarrow>
                 (let exact_match = (dict_get (h ! profile) ''match'' (PStr ''partial'') = PStr ''exact'')
                  in if exact \<and> \<not> exact_match
                     then profile_request_loop self game version exact cardid refid extid rest h
                     else
                       (let h = (if has_key (h ! profile) ''match''
                                 then h[profile := remove_key (h ! profile) ''match''] else h);
                            h = heap_setitem h profile ''game'' (PStr (game_value self game));
                            h = heap_setitem h profile ''version'' (PInt (if exact_match then version else 0));
                            h = heap_setitem h profile ''refid'' (PStr refid);
                            h = heap_setitem h profile ''extid'' (PInt extid)
                        in (case format_profile (game_value self) (h ! profile) of
                              Inl e \<Rightarrow> (Inl e, h)
                            | Inr r \<Rightarrow> (Inr (Some r), h))))))
          else profile_request_loop self game version exact cardid refid extid rest h)"

definition profile_request ::
  "GlobalUserData \<Rightarrow> GameConstants \<Rightarrow> int \<Rightarrow> int \<Rightarrow> bool \<Rightarrow> (py_error + pydict option) \<times> heap" where
  "profile_request self game version userid exact =
     (let cardid = RemoteUser_userid_to_card (remote self) userid;
          refid = user_get_refid (user self) game version userid;
          extid = user_get_extid (user self) game version userid;
          profiles = Parallel_flatten (Parallel_call (clients self) game version ID_TYPE_CARD [cardid])
      in profile_request_loop self game version exact cardid refid extid [0 ..< length profiles] profiles)"

definition from_cardid :: "GlobalUserData \<Rightarrow> string \<Rightarrow> int option" where
  "from_cardid self cardid =
     (let userid = user_from_cardid (user self) cardid;
          userid = (if userid = None then Some (RemoteUser_card_to_userid (remote self) cardid) else userid)
      in userid)"

definition from_refid :: "GlobalUserData \<Rightarrow> GameConstants \<Rightarrow> int \<Rightarrow> string \<Rightarrow> int option" where
  "from_refid self game version refid = user_from_refid (user self) game version refid"

definition from_extid :: "GlobalUserData \<Rightarrow> GameConstants \<Rightarrow> int \<Rightarrow> int \<Rightarrow> int option" where
  "from_extid self game version extid = user_from_extid (user self) game version extid"

text \<open>A local identity is answered by the store, with no record fetched: the store of
  record objects is empty then.\<close>

definition get_profile ::
  "GlobalUserData \<Rightarrow> GameConstants \<Rightarrow> int \<Rightarrow> int \<Rightarrow> (py_error + pydict option) \<times> heap" where
  "get_profile self game version userid =
     (if RemoteUser_is_remote (remote self) userid
      then profile_request self game version userid True
      else (Inr (user_get_profile (user self) game version userid), []))"

definition get_any_profile ::
  "GlobalUserData \<Rightarrow> GameConstants \<Rightarrow> int \<Rightarrow> int \<Rightarrow> (py_error + pydict option) \<times> heap" where
  "get_any_profile self game version userid =
     (if RemoteUser_is_remote (remote self) userid
      then profile_request self game version userid False
      else (Inr (user_get_any_profile (user self) game version userid), []))"

section \<open>Retrieval of several profiles\<close>

text \<open>
  The inner loop of \<^verbatim>\<open>get_any_profiles\<close> over the cards of one record.  The variable
  \<^verbatim>\<open>profile\<close> is shared by all rounds of the loop: what a round copies is the
  object the variable holds at that moment.
\<close>

fun get_any_profiles_cards ::
  "GlobalUserData \<Rightarrow> GameConstants \<Rightarrow> int \<Rightarrow> string list \<Rightarrow> nat \<Rightarrow>
   (string \<times> int) list \<Rightarrow> (int \<times> pydict option) list \<Rightarrow> heap \<Rightarrow>
   (py_error + (string \<times> int) list \<times> (int \<times> pydict option) list) \<times> heap" where
  "get_any_profiles_cards self game version [] profile card_to_userid local_profiles h =
     (Inr (card_to_userid, local_profiles), h)"
| "get_any_profiles_cards self game version (card' # cards) profile card_to_userid local_profiles h =
     (case map_of card_to_userid card' of
        None \<Rightarrow>
          get_any_profiles_cards self game version cards profile card_to_userid local_profiles h
      | Some userid \<Rightarrow>
         (case deepcopy h profile of (profile, h) \<Rightarrow>
          (case heap_delitem h profile ''cards'' of
             Inl e \<Rightarrow> (Inl e, h)
           | Inr h \<Rightarrow>
              (let exact_match = (dict_get (h ! profile) ''match'' (PStr ''partial'') = PStr ''exact'');
                   h = (if has_key (h ! profile) ''match''
                        then h[profile := remove_key (h ! profile) ''match''] else h);
                   refid = user_get_refid (user self) game version userid;
                   extid = user_get_extid (user self) game version userid;
                   h = heap_setitem h profile ''game'' (PStr (game_value self game));
                   h = heap_setitem h profile ''version'' (PInt (if exact_match then version else 0));
                   h = heap_setitem h profile ''refid'' (PStr refid);
                   h = heap_setitem h profile ''extid'' (PInt extid)
               in (case format_profile (game_value self) (h ! profile) of
                     Inl e \<Rightarrow> (Inl e, h)
                   | Inr r \<Rightarrow>
                      (case delitem card_to_userid card' of
                         Inl e \<Rightarrow> (Inl e, h)
                       | Inr card_to_userid \<Rightarrow>
                           get_any_profiles_cards self game version cards profile card_to_userid
                             (local_profiles @ [(userid, Some r)]) h))))))"

text \<open>The outer loop, over the addresses of the fetched records.\<close>

fun get_any_profiles_loop ::
  "GlobalUserData \<Rightarrow> GameConstants \<Rightarrow> int \<Rightarrow> nat list \<Rightarrow>
   (string \<times> int) list \<Rightarrow> (int \<times> pydict option) list \<Rightarrow> heap \<Rightarrow>
   (py_error + (string \<times> int) list \<times> (int \<times> pydict option) list) \<times> heap" where
  "get_any_profiles_loop self game version [] card_to_userid local_profiles h =
     (Inr (card_to_userid, local_profiles), h)"
| "get_any_profiles_loop self game version (profile # rest) card_to_userid local_profiles h =
     (case get_cards (str_upper self) (h ! profile) of
        Inl e \<Rightarrow> (Inl e, h)
      | Inr cards \<Rightarrow>
         (case get_any_profiles_cards self game version cards profile card_to_userid local_profiles h of
            (Inl e, h) \<Rightarrow> (Inl e, h)
          | (Inr (card_to_userid, local_profiles), h) \<Rightarrow>
              get_any_profiles_loop self game version rest card_to_userid local_profiles h))"

text \<open>
  The last loop appends one pair for every key left in \<^verbatim>\<open>card_to_userid\<close>, in the order
  of the dictionary.
\<close>

definition get_any_profiles ::
  "GlobalUserData \<Rightarrow> GameConstants \<Rightarrow> int \<Rightarrow> int list \<Rightarrow>
   (py_error + (int \<times> pydict option) list) \<times> heap" where
  "get_any_profiles self game version userids =
     (if length userids = 0 then (Inr [], [])
      else
        (let remote_ids = filter (\<lambda>userid. RemoteUser_is_remote (remote self) userid) userids;
             local_ids = filter (\<lambda>userid. \<not> RemoteUser_is_remote (remote self) userid) userids
         in if length remote_ids = 0
            then (Inr (user_get_any_profiles (user self) game version local_ids), [])
            else
              (let card_to_userid =
                     fold (\<lambda>userid d. setitem d (RemoteUser_userid_to_card (remote self) userid) userid) remote_ids [];
                   local_profiles = user_get_any_profiles (user self) game version local_ids;
                   remote_profiles =
                     Parallel_flatten (Parallel_call (clients self) game version ID_TYPE_CARD
                       (map (\<lambda>userid. RemoteUser_userid_to_card (remote self) userid) remote_ids))
               in (case get_any_profiles_loop self game version [0 ..< length remote_profiles]
                          card_to_userid local_profiles remote_profiles of
                     (Inl e, h) \<Rightarrow> (Inl e, h)
                   | (Inr (card_to_userid, local_profiles), h) \<Rightarrow>
                       (Inr (local_profiles @ map (\<lambda>card. (dict_get card_to_userid card 0, None))
                                                  (map fst card_to_userid)), h)))))"

section \<open>Retrieval of all profiles\<close>

text \<open>
  The loop of \<^verbatim>\<open>get_all_profiles\<close>.  Nothing is copied: \<^verbatim>\<open>del profile['cards']\<close> and
  the four assignments write to the fetched record itself.  \<^verbatim>\<open>cardids[0]\<close> raises
  \<^verbatim>\<open>IndexError\<close> on an empty list.
\<close>

fun get_all_profiles_loop ::
  "GlobalUserData \<Rightarrow> GameConstants \<Rightarrow> int \<Rightarrow> (string \<times> int) list \<Rightarrow> nat list \<Rightarrow>
   (int \<times> pydict) list \<Rightarrow> heap \<Rightarrow> (py_error + (int \<times> pydict) list) \<times> heap" where
  "get_all_profiles_loop self game version card_to_id [] id_to_profile h = (Inr id_to_profile, h)"
| "get_all_profiles_loop self game version card_to_id (profile # rest) id_to_profile h =
     (case get_cards (str_upper self) (h ! profile) of
        Inl e \<Rightarrow> (Inl e, h)
      | Inr cards \<Rightarrow>
         (let cardids = sort cards
          in if length cardids = 0
             then get_all_profiles_loop self game version card_to_id rest id_to_profile h
             else
               (let local_cards = filter (\<lambda>cardid. has_key card_to_id cardid) cardids
                in if length local_cards > 0
                   then get_all_profiles_loop self game version card_to_id rest id_to_profile h
                   else
                     (case heap_delitem h profile ''cards'' of
                        Inl e \<Rightarrow> (Inl e, h)
                      | Inr h \<Rightarrow>
                         (let exact_match =
                                (dict_get (h ! profile) ''match'' (PStr ''partial'') = PStr ''exact'')
                          in if \<not> exact_match
                             then get_all_profiles_loop self game version card_to_id rest id_to_profile h
                             else
                               (case cardids of
                                  [] \<Rightarrow> (Inl IndexError, h)
                                | cardid0 # _ \<Rightarrow>
                                   (let userid = RemoteUser_card_to_userid (remote self) cardid0;
                                        refid = user_get_refid (user self) game version userid;
                                        extid = user_get_extid (user self) game version userid;
                                        h = heap_setitem h profile ''game'' (PStr (game_value self game));
                                        h = heap_setitem h profile ''version'' (PInt version);
                                        h = heap_setitem h profile ''refid'' (PStr refid);
                                        h = heap_setitem h profile ''extid'' (PInt extid)
                                    in (case format_profile (game_value self) (h ! profile) of
                                          Inl e \<Rightarrow> (Inl e, h)
                                        | Inr r \<Rightarrow>
                                            get_all_profiles_loop self game version card_to_id rest
                                              (setitem id_to_profile userid r) h))))))))"

definition get_all_profiles ::
  "GlobalUserData \<Rightarrow> GameConstants \<Rightarrow> int \<Rightarrow> (py_error + (int \<times> pydict) list) \<times> heap" where
  "get_all_profiles self game version =
     (let local_cards = user_get_all_cards (user self);
          local_profiles = user_get_all_profiles (user self) game version;
          remote_profiles =
            Parallel_flatten (Parallel_call (clients self) game version ID_TYPE_SERVER []);
          card_to_id = fold (\<lambda>(cardid, userid) d. setitem d cardid userid) local_cards [];
          id_to_profile = fold (\<lambda>(userid, profile) d. setitem d userid profile) local_profiles []
      in get_all_profiles_loop self game version card_to_id [0 ..< length remote_profiles]
           id_to_profile remote_profiles)"

section \<open>A small federation\<close>

text \<open>
  One instance of the collaborators, on which the functions are run: remote identities
  are the integers above \<open>2\<^sup>3\<^sup>2 - 1\<close>, four cards have a derived identity, the store knows
  two cards of its user 1, \<^verbatim>\<open>L1\<close> and the card made of the code points 201 (a capital E with
  an acute accent) and 49, and every peer answers with a fixed list of records.
\<close>

definition example_remote :: RemoteUser where
  "example_remote =
     \<lparr> RemoteUser_is_remote = (\<lambda>userid. 4294967295 < userid),
       RemoteUser_card_to_userid =
         (\<lambda>cardid. if cardid = ''A1'' then 4294967296
                    else if cardid = ''B1'' then 4294967297
                    else if cardid = [CHR 0xC9, CHR ''0''] then 4294967300 else 4294967298),
       RemoteUser_userid_to_card =
         (\<lambda>userid. if userid = 4294967296 then ''A1''
                    else if userid = 4294967297 then ''B1''
                    else if userid = 4294967300 then [CHR 0xC9, CHR ''0''] else ''C1'') \<rparr>"

definition example_user :: UserData where
  "example_user =
     \<lparr> user_from_cardid = (\<lambda>cardid. if cardid = ''L1'' then Some 1 else None),
       user_from_refid = (\<lambda>game version refid. if refid = ''R1'' then Some 1 else None),
       user_from_extid = (\<lambda>game version extid. if extid = 11 then Some 1 else None),
       user_get_refid = (\<lambda>game version userid. if userid = 1 then ''R1'' else ''RV''),
       user_get_extid = (\<lambda>game version userid. if userid = 1 then 11 else 77),
       user_get_profile = (\<lambda>game version userid. None),
       user_get_any_profile = (\<lambda>game version userid. None),
       user_get_any_profiles = (\<lambda>game version userids. map (\<lambda>userid. (userid, None)) userids),
       user_get_all_cards = [(''L1'', 1), ([CHR 0xC9, CHR ''1''], 1)],
       user_get_all_profiles = (\<lambda>game version. [(1, [(''name'', PStr ''LOCAL'')])]) \<rparr>"

definition example_game_value :: "GameConstants \<Rightarrow> string" where
  "example_game_value g =
     (case g of DDR \<Rightarrow> ''ddr'' | IIDX \<Rightarrow> ''iidx'' | JUBEAT \<Rightarrow> ''jubeat'' | MUSECA \<Rightarrow> ''museca''
      | POPN_MUSIC \<Rightarrow> ''pnm'' | REFLEC_BEAT \<Rightarrow> ''reflec'' | SDVX \<Rightarrow> ''sdvx'' | OTHER_GAME \<Rightarrow> ''other'')"

text \<open>
  \<^verbatim>\<open>str.upper\<close> on strings of code points below 256, a character standing for its code
  point: the letters a to z and the accented letters from 224 to 254 (but not the division
  sign 247) move down by 32, and the sharp s becomes \<^verbatim>\<open>SS\<close>.  The two characters whose
  upper-case form lies beyond 255 (181 and 255) are outside this instance; the runs below
  use neither.
\<close>

definition example_upper_char :: "char \<Rightarrow> string" where
  "example_upper_char c =
     (let n = (of_char c :: nat)
      in if (97 \<le> n \<and> n \<le> 122) \<or> (224 \<le> n \<and> n \<le> 254 \<and> n \<noteq> 247)
         then [char_of (n - 32)]
         else if n = 223 then ''SS'' else [c])"

definition example_upper :: "string \<Rightarrow> string" where
  "example_upper s = concat (map example_upper_char s)"

definition example_self :: "pydict list list \<Rightarrow> GlobalUserData" where
  "example_self responses =
     \<lparr> user = example_user,
       clients = map (\<lambda>response. (\<lambda>game version idtype ids. response)) responses,
       remote = example_remote,
       game_value = example_game_value,
       str_upper = example_upper \<rparr>"

section \<open>Closed forms used in the statements\<close>

text \<open>
  The statements below compare the loops, which work on the store of record objects, with
  plain functions of a record.  None of these is part of the module: each one names an
  expression of the module so that a statement can refer to it.
\<close>

text \<open>The updates that the seven tests of \<^verbatim>\<open>__format_profile\<close> select for a game.\<close>

definition game_updates :: "GameConstants \<Rightarrow> pydict \<Rightarrow> pydict" where
  "game_updates g profile =
     (case g of
        DDR \<Rightarrow> format_ddr_profile profile
      | IIDX \<Rightarrow> format_iidx_profile profile
      | JUBEAT \<Rightarrow> format_jubeat_profile profile
      | MUSECA \<Rightarrow> format_museca_profile profile
      | POPN_MUSIC \<Rightarrow> format_popn_profile profile
      | REFLEC_BEAT \<Rightarrow> format_reflec_profile profile
      | SDVX \<Rightarrow> format_sdvx_profile profile
      | OTHER_GAME \<Rightarrow> [])"

text \<open>The content of the \<^verbatim>\<open>qpro\<close> dictionary that \<^verbatim>\<open>__format_iidx_profile\<close> builds.\<close>

definition qpro_entries :: "pydict \<Rightarrow> pydict" where
  "qpro_entries qpro =
     (let q = [];
          q = (if get_int qpro ''head'' (- 1) \<noteq> - 1 then setitem q ''head'' (PInt (get_int qpro ''head'' (- 1))) else q);
          q = (if get_int qpro ''hair'' (- 1) \<noteq> - 1 then setitem q ''hair'' (PInt (get_int qpro ''hair'' (- 1))) else q);
          q = (if get_int qpro ''face'' (- 1) \<noteq> - 1 then setitem q ''face'' (PInt (get_int qpro ''face'' (- 1))) else q);
          q = (if get_int qpro ''body'' (- 1) \<noteq> - 1 then setitem q ''body'' (PInt (get_int qpro ''body'' (- 1))) else q);
          q = (if get_int qpro ''hand'' (- 1) \<noteq> - 1 then setitem q ''hand'' (PInt (get_int qpro ''hand'' (- 1))) else q)
      in q)"

text \<open>\<^verbatim>\<open>profile.get('match', 'partial') == 'exact'\<close>\<close>

definition exact_match_of :: "pydict \<Rightarrow> bool" where
  "exact_match_of r = (dict_get r ''match'' (PStr ''partial'') = PStr ''exact'')"

text \<open>The upper-cased cards of a record, and whether computing them raises nothing.\<close>

definition cards_of :: "(string \<Rightarrow> string) \<Rightarrow> pydict \<Rightarrow> string list" where
  "cards_of upper r = (case get_cards upper r of Inl e \<Rightarrow> [] | Inr cards \<Rightarrow> cards)"

definition cards_ok :: "(string \<Rightarrow> string) \<Rightarrow> pydict \<Rightarrow> bool" where
  "cards_ok upper r = (case get_cards upper r of Inl e \<Rightarrow> False | Inr cards \<Rightarrow> True)"

text \<open>
  A record after the four assignments of defaults, and the copy of a record as
  \<^verbatim>\<open>__profile_request\<close> and \<^verbatim>\<open>get_any_profiles\<close> hand it to the normalizer: without
  \<^verbatim>\<open>cards\<close> and \<^verbatim>\<open>match\<close>, with the defaults.
\<close>

definition stamped :: "pydict \<Rightarrow> string \<Rightarrow> int \<Rightarrow> string \<Rightarrow> int \<Rightarrow> pydict" where
  "stamped d g v refid extid =
     setitem (setitem (setitem (setitem d ''game'' (PStr g)) ''version'' (PInt v))
       ''refid'' (PStr refid)) ''extid'' (PInt extid)"

definition sanitized :: "pydict \<Rightarrow> string \<Rightarrow> int \<Rightarrow> string \<Rightarrow> int \<Rightarrow> pydict" where
  "sanitized r g v refid extid =
     setitem (setitem (setitem (setitem (remove_key (remove_key r ''cards'') ''match'')
       ''game'' (PStr g)) ''version'' (PInt v)) ''refid'' (PStr refid)) ''extid'' (PInt extid)"

text \<open>The return value of \<^verbatim>\<open>__profile_request\<close> for a normalized record.\<close>

definition lift_result :: "py_error + pydict \<Rightarrow> py_error + pydict option" where
  "lift_result x = (case x of Inl e \<Rightarrow> Inl e | Inr r \<Rightarrow> Inr (Some r))"

text \<open>The flattened responses of the peers in the three retrieval functions.\<close>

definition fetched_by_card :: "GlobalUserData \<Rightarrow> GameConstants \<Rightarrow> int \<Rightarrow> int \<Rightarrow> pydict list" where
  "fetched_by_card self game version userid =
     Parallel_flatten (Parallel_call (clients self) game version ID_TYPE_CARD
       [RemoteUser_userid_to_card (remote self) userid])"

definition fetched_by_cards :: "GlobalUserData \<Rightarrow> GameConstants \<Rightarrow> int \<Rightarrow> int list \<Rightarrow> pydict list" where
  "fetched_by_cards self game version userids =
     Parallel_flatten (Parallel_call (clients self) game version ID_TYPE_CARD
       (map (\<lambda>userid. RemoteUser_userid_to_card (remote self) userid)
          (filter (\<lambda>userid. RemoteUser_is_remote (remote self) userid) userids)))"

definition fetched_all :: "GlobalUserData \<Rightarrow> GameConstants \<Rightarrow> int \<Rightarrow> pydict list" where
  "fetched_all self game version =
     Parallel_flatten (Parallel_call (clients self) game version ID_TYPE_SERVER [])"

text \<open>The dictionary \<^verbatim>\<open>card_to_id\<close> of \<^verbatim>\<open>get_all_profiles\<close>.\<close>

definition local_card_table :: "GlobalUserData \<Rightarrow> (string \<times> int) list" where
  "local_card_table self =
     fold (\<lambda>(cardid, userid) d. setitem d cardid userid) (user_get_all_cards (user self)) []"

text \<open>
  What one round of the loop of \<^verbatim>\<open>get_all_profiles\<close> leaves of the record it visits,
  when the round raises nothing.
\<close>

definition get_all_profiles_effect ::
  "GlobalUserData \<Rightarrow> GameConstants \<Rightarrow> int \<Rightarrow> (string \<times> int) list \<Rightarrow> pydict \<Rightarrow> pydict" where
  "get_all_profiles_effect self game version card_to_id d =
     (case get_cards (str_upper self) d of
        Inl e \<Rightarrow> d
      | Inr cards \<Rightarrow>
          if cards = [] \<or> (\<exists>c\<in>set cards. has_key card_to_id c) then d
          else if \<not> exact_match_of d then remove_key d ''cards''
          else stamped (remove_key d ''cards'') (game_value self game) version
                 (user_get_refid (user self) game version
                    (RemoteUser_card_to_userid (remote self) (Min (set cards))))
                 (user_get_extid (user self) game version
                    (RemoteUser_card_to_userid (remote self) (Min (set cards)))))"

section \<open>Dictionaries and the normalizer\<close>

lemma map_of_setitem: "map_of (setitem d k v) = (map_of d)(k \<mapsto> v)"
  by (induction d) auto

lemma map_of_remove_key: "map_of (remove_key d k) = (map_of d)(k := None)"
  by (induction d) auto

lemma map_of_dict_update_other:
  "k \<notin> fst ` set updates \<Longrightarrow> map_of (dict_update base updates) k = map_of base k"
  unfolding dict_update_def
  by (induction updates arbitrary: base) (auto simp: map_of_setitem)

lemma dict_update_Nil: "dict_update base [] = base"
  by (simp add: dict_update_def)

lemma format_profile_Inr:
  assumes "map_of profile ''game'' = Some g" "map_of profile ''version'' = Some v"
    "map_of profile ''refid'' = Some r" "map_of profile ''extid'' = Some x"
    "GameConstants_of gv g = Inr pg"
  shows "format_profile gv profile =
           Inr (dict_update [(''name'', dict_get profile ''name'' (PStr [])),
                  (''game'', g), (''version'', v), (''refid'', r), (''extid'', x)]
                  (game_updates pg profile))"
  using assms unfolding format_profile_def getitem_def game_updates_def
  by (cases pg)
     (simp_all add: Let_def dict_update_Nil format_jubeat_profile_def format_museca_profile_def
        format_sdvx_profile_def)

lemma GameConstants_of_value: "\<exists>pg. GameConstants_of gv (PStr (gv game)) = Inr pg \<and> gv pg = gv game"
proof -
  have "game \<in> set all_games" by (cases game) (simp_all add: all_games_def)
  then have "find (\<lambda>g. gv g = gv game) all_games \<noteq> None"
    by (auto simp: find_None_iff)
  then obtain pg where "find (\<lambda>g. gv g = gv game) all_games = Some pg" by auto
  then show ?thesis
    by (auto simp: GameConstants_of_def dest: find_Some_iff[THEN iffD1])
qed

lemma if_setitem_in_qpro:
  "(if c then setitem_in ((''qpro'', PDict q) # r) ''qpro'' k v else (''qpro'', PDict q) # r)
     = (''qpro'', PDict (if c then setitem q k v else q)) # r"
  by (simp add: setitem_in_def)

lemma if_setitem_pid:
  "(if c then setitem [(''qpro'', x)] ''pid'' v else [(''qpro'', x)])
     = (''qpro'', x) # (if c then [(''pid'', v)] else [])"
  by simp

lemma format_iidx_profile_shape:
  "format_iidx_profile p =
     (''qpro'', PDict (qpro_entries (get_dict p ''qpro''))) #
     (if get_int p ''area'' (- 1) \<noteq> - 1 then [(''pid'', PInt (get_int p ''area'' (- 1)))] else [])"
  unfolding format_iidx_profile_def Let_def qpro_entries_def
  by (simp only: if_setitem_in_qpro if_setitem_pid)

lemma map_of_if_setitem:
  "map_of (if c then setitem q k v else q) k' = (if c \<and> k' = k then Some v else map_of q k')"
  by (simp add: map_of_setitem)

lemma qpro_entries_lookup:
  "map_of (qpro_entries qpro) k =
     (if k \<in> {''head'', ''hair'', ''face'', ''body'', ''hand''} \<and> get_int qpro k (- 1) \<noteq> - 1
      then Some (PInt (get_int qpro k (- 1))) else None)"
  unfolding qpro_entries_def Let_def
  by (simp only: map_of_if_setitem) auto

lemma qpro_entries_empty:
  "\<forall>k\<in>{''head'', ''hair'', ''face'', ''body'', ''hand''}. get_int qpro k (- 1) = - 1 \<Longrightarrow>
   qpro_entries qpro = []"
  by (simp add: qpro_entries_def)

lemma format_profile_iidx:
  assumes "getitem profile ''game'' = Inr g" "GameConstants_of gv g = Inr IIDX"
    "format_profile gv profile = Inr out"
  shows "map_of out ''qpro'' = Some (PDict (qpro_entries (get_dict profile ''qpro'')))"
    and "map_of out ''pid'' =
           (if get_int profile ''area'' (- 1) \<noteq> - 1 then Some (PInt (get_int profile ''area'' (- 1))) else None)"
  using assms unfolding format_profile_def getitem_def
  by (auto simp: Let_def format_iidx_profile_shape dict_update_def split: option.splits sum.splits)

lemma keys_game_updates:
  "fst ` set (game_updates pg profile) \<subseteq> {''area'', ''qpro'', ''pid'', ''chara'', ''config''}"
  by (cases pg)
     (auto simp: game_updates_def format_ddr_profile_def format_iidx_profile_shape Let_def
        format_jubeat_profile_def format_museca_profile_def format_popn_profile_def
        format_reflec_profile_def format_sdvx_profile_def split: if_splits)

lemma sanitized_lookup:
  "map_of (sanitized r g v refid extid) ''game'' = Some (PStr g)"
  "map_of (sanitized r g v refid extid) ''version'' = Some (PInt v)"
  "map_of (sanitized r g v refid extid) ''refid'' = Some (PStr refid)"
  "map_of (sanitized r g v refid extid) ''extid'' = Some (PInt extid)"
  by (simp_all add: sanitized_def map_of_setitem)

lemma format_profile_sanitized:
  "\<exists>out. format_profile gv (sanitized r (gv game) v refid extid) = Inr out \<and>
     map_of out ''game'' = Some (PStr (gv game)) \<and> map_of out ''version'' = Some (PInt v) \<and>
     map_of out ''refid'' = Some (PStr refid) \<and> map_of out ''extid'' = Some (PInt extid)"
proof -
  obtain pg where pg: "GameConstants_of gv (PStr (gv game)) = Inr pg"
    using GameConstants_of_value[of gv game] by blast
  let ?d = "sanitized r (gv game) v refid extid"
  have notin: "k \<in> {''game'', ''version'', ''refid'', ''extid''} \<Longrightarrow> k \<notin> fst ` set (game_updates pg ?d)" for k
    using keys_game_updates[of pg ?d] by auto
  show ?thesis
    unfolding format_profile_Inr[OF sanitized_lookup pg]
    by (simp add: map_of_dict_update_other notin)
qed

section \<open>Normalization of IIDX records\<close>

text \<open>
  Claim C8.  Normalizing a record of the game IIDX gives a profile whose \<^verbatim>\<open>qpro\<close> entry is a
  dictionary holding, of the five sub-fields \<^verbatim>\<open>head\<close>, \<^verbatim>\<open>hair\<close>, \<^verbatim>\<open>face\<close>, \<^verbatim>\<open>body\<close> and
  \<^verbatim>\<open>hand\<close>, exactly those that the record's \<^verbatim>\<open>qpro\<close> has with an integer other than -1,
  each with its value, and nothing else.  A record with \<^verbatim>\<open>qpro.head = -1\<close> and
  \<^verbatim>\<open>qpro.hair = 3\<close> gives the updates \<^verbatim>\<open>{'qpro': {'hair': 3}}\<close>.
\<close>

theorem iidx_qpro_subfields:
  assumes "getitem profile ''game'' = Inr g" and "GameConstants_of gv g = Inr IIDX"
    and "format_profile gv profile = Inr out"
  shows "(\<exists>q. map_of out ''qpro'' = Some (PDict q) \<and>
            (\<forall>k. map_of q k =
               (if k \<in> {''head'', ''hair'', ''face'', ''body'', ''hand''} \<and>
                   get_int (get_dict profile ''qpro'') k (- 1) \<noteq> - 1
                then Some (PInt (get_int (get_dict profile ''qpro'') k (- 1))) else None))) \<and>
         format_iidx_profile [(''qpro'', PDict [(''head'', PInt (- 1)), (''hair'', PInt 3)])] =
           [(''qpro'', PDict [(''hair'', PInt 3)])]"
proof -
  have "format_iidx_profile [(''qpro'', PDict [(''head'', PInt (- 1)), (''hair'', PInt 3)])] =
           [(''qpro'', PDict [(''hair'', PInt 3)])]"
    by (simp add: format_iidx_profile_def get_int_def get_dict_def setitem_in_def)
  then show ?thesis
    using format_profile_iidx(1)[OF assms] qpro_entries_lookup by blast
qed

theorem iidx_qpro_subfields_witness:
  "getitem [(''game'', PStr ''iidx''), (''version'', PInt 3), (''refid'', PStr ''RV''),
            (''extid'', PInt 77), (''qpro'', PDict [(''head'', PInt (- 1)), (''hair'', PInt 3)])]
     ''game'' = Inr (PStr ''iidx'') \<and>
   GameConstants_of example_game_value (PStr ''iidx'') = Inr IIDX \<and>
   format_profile example_game_value
     [(''game'', PStr ''iidx''), (''version'', PInt 3), (''refid'', PStr ''RV''),
      (''extid'', PInt 77), (''qpro'', PDict [(''head'', PInt (- 1)), (''hair'', PInt 3)])] =
     Inr [(''name'', PStr []), (''game'', PStr ''iidx''), (''version'', PInt 3),
          (''refid'', PStr ''RV''), (''extid'', PInt 77), (''qpro'', PDict [(''hair'', PInt 3)])] \<and>
   (\<exists>q. map_of [(''name'', PStr []), (''game'', PStr ''iidx''), (''version'', PInt 3),
          (''refid'', PStr ''RV''), (''extid'', PInt 77), (''qpro'', PDict [(''hair'', PInt 3)])] ''qpro''
          = Some (PDict q) \<and> map_of q ''hair'' = Some (PInt 3) \<and> map_of q ''head'' = None)"
proof -
  let ?p = "[(''game'', PStr ''iidx''), (''version'', PInt 3), (''refid'', PStr ''RV''),
            (''extid'', PInt 77), (''qpro'', PDict [(''head'', PInt (- 1)), (''hair'', PInt 3)])]"
  let ?out = "[(''name'', PStr []), (''game'', PStr ''iidx''), (''version'', PInt 3),
          (''refid'', PStr ''RV''), (''extid'', PInt 77), (''qpro'', PDict [(''hair'', PInt 3)])]"
  have h1: "getitem ?p ''game'' = Inr (PStr ''iidx'')" by (simp add: getitem_def)
  have h2: "GameConstants_of example_game_value (PStr ''iidx'') = Inr IIDX"
    by (simp add: GameConstants_of_def all_games_def example_game_value_def)
  have h3: "format_profile example_game_value ?p = Inr ?out" by code_simp
  from iidx_qpro_subfields[OF h1 h2 h3] h1 h2 h3 show ?thesis
    by (simp add: get_int_def get_dict_def)
qed

text \<open>
  Claim C10.  The normalized profile of an IIDX record always has the key \<^verbatim>\<open>qpro\<close>, bound to
  the empty dictionary when none of the five sub-fields is present with a value other than
  -1.  The other optional fields are left out when their source is absent: \<^verbatim>\<open>pid\<close> of the
  same profile, and the whole update of the DDR, Pop'n Music and Reflec Beat formatters.
\<close>

theorem iidx_qpro_always_present:
  assumes "getitem profile ''game'' = Inr g" and "GameConstants_of gv g = Inr IIDX"
    and "format_profile gv profile = Inr out"
  shows "has_key out ''qpro'' \<and>
         ((\<forall>k\<in>{''head'', ''hair'', ''face'', ''body'', ''hand''}.
              get_int (get_dict profile ''qpro'') k (- 1) = - 1) \<longrightarrow>
            map_of out ''qpro'' = Some (PDict [])) \<and>
         (get_int profile ''area'' (- 1) = - 1 \<longrightarrow> \<not> has_key out ''pid'') \<and>
         (get_int profile ''area'' (- 1) = - 1 \<longrightarrow> format_ddr_profile profile = []) \<and>
         (get_int profile ''character'' (- 1) = - 1 \<longrightarrow> format_popn_profile profile = []) \<and>
         (get_int profile ''icon'' (- 1) = - 1 \<longrightarrow> format_reflec_profile profile = [])"
  using format_profile_iidx[OF assms] qpro_entries_empty[of "get_dict profile ''qpro''"]
  by (simp add: has_key_def format_ddr_profile_def format_popn_profile_def format_reflec_profile_def)

theorem iidx_qpro_always_present_witness:
  "getitem [(''game'', PStr ''iidx''), (''version'', PInt 3), (''refid'', PStr ''RV''), (''extid'', PInt 77)]
     ''game'' = Inr (PStr ''iidx'') \<and>
   GameConstants_of example_game_value (PStr ''iidx'') = Inr IIDX \<and>
   format_profile example_game_value
     [(''game'', PStr ''iidx''), (''version'', PInt 3), (''refid'', PStr ''RV''), (''extid'', PInt 77)] =
     Inr [(''name'', PStr []), (''game'', PStr ''iidx''), (''version'', PInt 3),
          (''refid'', PStr ''RV''), (''extid'', PInt 77), (''qpro'', PDict [])] \<and>
   has_key [(''name'', PStr []), (''game'', PStr ''iidx''), (''version'', PInt 3),
          (''refid'', PStr ''RV''), (''extid'', PInt 77), (''qpro'', PDict [])] ''qpro'' \<and>
   \<not> has_key [(''name'', PStr []), (''game'', PStr ''iidx''), (''version'', PInt 3),
          (''refid'', PStr ''RV''), (''extid'', PInt 77), (''qpro'', PDict [])] ''pid''"
proof -
  let ?p = "[(''game'', PStr ''iidx''), (''version'', PInt 3), (''refid'', PStr ''RV''), (''extid'', PInt 77)]"
  let ?out = "[(''name'', PStr []), (''game'', PStr ''iidx''), (''version'', PInt 3),
          (''refid'', PStr ''RV''), (''extid'', PInt 77), (''qpro'', PDict [])]"
  have h1: "getitem ?p ''game'' = Inr (PStr ''iidx'')" by (simp add: getitem_def)
  have h2: "GameConstants_of example_game_value (PStr ''iidx'') = Inr IIDX"
    by (simp add: GameConstants_of_def all_games_def example_game_value_def)
  have h3: "format_profile example_game_value ?p = Inr ?out" by code_simp
  from iidx_qpro_always_present[OF h1 h2 h3] h1 h2 h3 show ?thesis
    by (simp add: get_int_def)
qed

section \<open>Identity lookup\<close>

text \<open>
  Claim C2, as amended.  \<^verbatim>\<open>from_cardid\<close> returns the identity of the store when the store
  maps the card and the virtual identity derived from the card otherwise, never an absent
  result.  \<^verbatim>\<open>from_refid\<close> and \<^verbatim>\<open>from_extid\<close> return the answer of the store as it is: they
  have no card to derive an identity from, and their result is absent when the store has no
  mapping.
\<close>

theorem identity_lookup_helpers:
  "from_cardid self cardid =
     Some (case user_from_cardid (user self) cardid of
             Some userid \<Rightarrow> userid
           | None \<Rightarrow> RemoteUser_card_to_userid (remote self) cardid) \<and>
   from_refid self game version refid = user_from_refid (user self) game version refid \<and>
   from_extid self game version extid = user_from_extid (user self) game version extid"
  by (simp add: from_cardid_def from_refid_def from_extid_def Let_def split: option.splits)

theorem identity_lookup_helpers_witness:
  "from_cardid (example_self []) ''L1'' = Some 1 \<and>
   from_cardid (example_self []) ''A1'' = Some 4294967296 \<and>
   from_refid (example_self []) IIDX 3 ''R1'' = Some 1 \<and>
   from_extid (example_self []) IIDX 3 12 = None"
  using identity_lookup_helpers[of "example_self []" "''L1''" IIDX 3 "''R1''" 12]
    identity_lookup_helpers[of "example_self []" "''A1''" IIDX 3 "''R1''" 12]
  by (simp add: example_self_def example_user_def example_remote_def)

text \<open>
  The claim as first stated fails: the store below has no mapping for the reference id
  \<^verbatim>\<open>R2\<close> nor for the external id 12, and both helpers return an absent result.
\<close>

theorem from_refid_counterexample:
  "user_from_refid (user (example_self [])) IIDX 3 ''R2'' = None \<and>
   from_refid (example_self []) IIDX 3 ''R2'' = None \<and>
   user_from_extid (user (example_self [])) IIDX 3 12 = None \<and>
   from_extid (example_self []) IIDX 3 12 = None"
  by (simp add: from_refid_def from_extid_def example_self_def example_user_def)

section \<open>One profile of a virtual identity\<close>

lemma remove_key_absent: "\<not> has_key d k \<Longrightarrow> remove_key d k = d"
  unfolding has_key_def by (induction d) (auto split: if_splits)

lemma get_cards_has_key: "get_cards upper d = Inr cs \<Longrightarrow> cs \<noteq> [] \<Longrightarrow> has_key d ''cards''"
  unfolding get_cards_def dict_get_def has_key_def
  by (cases "map_of d ''cards''") auto

lemma heap_delitem_fresh:
  "has_key d k \<Longrightarrow> heap_delitem (h @ [d]) (length h) k = Inr (h @ [remove_key d k])"
  by (simp add: heap_delitem_def delitem_def)

lemma heap_setitem_fresh: "heap_setitem (h @ [d]) (length h) k v = h @ [setitem d k v]"
  by (simp add: heap_setitem_def)

lemma exact_match_after_del:
  "(dict_get (remove_key d ''cards'') ''match'' (PStr ''partial'') = PStr ''exact'') = exact_match_of d"
  by (simp add: exact_match_of_def dict_get_def map_of_remove_key)

lemma has_match_after_del: "has_key (remove_key d ''cards'') ''match'' = has_key d ''match''"
  by (simp add: has_key_def map_of_remove_key)

lemma profile_request_loop_Cons:
  assumes "get_cards (str_upper self) (h ! p) = Inr cards"
  shows "profile_request_loop self game version exact cardid refid extid (p # ps) h =
    (if cardid \<in> set cards then
       (if exact \<and> \<not> exact_match_of (h ! p)
        then profile_request_loop self game version exact cardid refid extid ps
               (h @ [remove_key (h ! p) ''cards''])
        else (lift_result (format_profile (game_value self)
                (sanitized (h ! p) (game_value self game)
                   (if exact_match_of (h ! p) then version else 0) refid extid)),
              h @ [sanitized (h ! p) (game_value self game)
                   (if exact_match_of (h ! p) then version else 0) refid extid]))
     else profile_request_loop self game version exact cardid refid extid ps h)"
proof (cases "cardid \<in> set cards")
  case False
  with assms show ?thesis by simp
next
  case True
  then have "cards \<noteq> []" by auto
  with assms have hk: "has_key (h ! p) ''cards''" by (rule get_cards_has_key)
  have rm: "\<not> has_key (h ! p) ''match'' \<Longrightarrow>
      remove_key (remove_key (h ! p) ''cards'') ''match'' = remove_key (h ! p) ''cards''"
    by (rule remove_key_absent) (simp add: has_match_after_del)
  show ?thesis
  proof (cases "has_key (h ! p) ''match''")
    case hm: True
    show ?thesis
      using assms True hm
      by (simp add: deepcopy_def heap_delitem_fresh[OF hk] exact_match_after_del Let_def
          has_match_after_del heap_setitem_fresh sanitized_def lift_result_def
          split: sum.split)
  next
    case hm: False
    show ?thesis
      using assms True hm rm[OF hm]
      by (simp add: deepcopy_def heap_delitem_fresh[OF hk] exact_match_after_del Let_def
          has_match_after_del heap_setitem_fresh sanitized_def lift_result_def
          split: sum.split)
  qed
qed

lemma profile_request_loop_frame:
  "n \<le> length h \<Longrightarrow>
   take n (snd (profile_request_loop self game version exact cardid refid extid ps h)) = take n h"
proof (induction ps arbitrary: h)
  case Nil
  then show ?case by simp
next
  case (Cons p ps)
  show ?case
  proof (cases "get_cards (str_upper self) (h ! p)")
    case (Inl e)
    then show ?thesis by simp
  next
    case (Inr cards)
    have "n \<le> length (h @ [remove_key (h ! p) ''cards''])" using Cons.prems by simp
    from Cons.IH[OF this] Cons.IH[OF Cons.prems] Cons.prems
    show ?thesis
      by (cases exact) (simp_all add: profile_request_loop_Cons[OF Inr] del: profile_request_loop.simps(2))
  qed
qed

lemma profile_request_loop_find:
  assumes "\<forall>p\<in>set ps. p < length recs \<and> cards_ok (str_upper self) (recs ! p)" "take (length recs) h = recs"
  shows "fst (profile_request_loop self game version exact cardid refid extid ps h) =
     (case find (\<lambda>r. cardid \<in> set (cards_of (str_upper self) r) \<and> (exact \<longrightarrow> exact_match_of r)) (map ((!) recs) ps) of
        None \<Rightarrow> Inr None
      | Some r \<Rightarrow> lift_result (format_profile (game_value self)
                    (sanitized r (game_value self game)
                       (if exact_match_of r then version else 0) refid extid)))"
  using assms
proof (induction ps arbitrary: h)
  case Nil
  then show ?case by simp
next
  case (Cons p ps)
  from Cons.prems have p: "p < length recs" and ok: "cards_ok (str_upper self) (recs ! p)" by auto
  from Cons.prems(2) have len: "length recs \<le> length h"
    by (metis length_take min.cobounded1)
  from p Cons.prems(2) have hp: "h ! p = recs ! p"
    by (metis nth_take)
  from ok obtain cards where gc: "get_cards (str_upper self) (recs ! p) = Inr cards"
    by (auto simp: cards_ok_def split: sum.splits)
  then have co: "cards_of (str_upper self) (recs ! p) = cards" by (simp add: cards_of_def)
  have t: "take (length recs) (h @ [remove_key (h ! p) ''cards'']) = recs"
    using Cons.prems(2) len by simp
  from Cons.prems(1) have rest: "\<forall>p\<in>set ps. p < length recs \<and> cards_ok (str_upper self) (recs ! p)" by simp
  show ?case
    using Cons.IH[OF rest t] Cons.IH[OF rest Cons.prems(2)] gc co hp
    by (cases exact) (simp_all add: profile_request_loop_Cons[of self h p cards] del: profile_request_loop.simps(2))
qed

lemma profile_request_find:
  assumes ok: "\<forall>r\<in>set (fetched_by_card self game version userid). cards_ok (str_upper self) r"
  shows "fst (profile_request self game version userid exact) =
     (case find (\<lambda>r. RemoteUser_userid_to_card (remote self) userid \<in> set (cards_of (str_upper self) r) \<and>
                      (exact \<longrightarrow> exact_match_of r))
             (fetched_by_card self game version userid) of
        None \<Rightarrow> Inr None
      | Some r \<Rightarrow> lift_result (format_profile (game_value self)
                    (sanitized r (game_value self game)
                       (if exact_match_of r then version else 0)
                       (user_get_refid (user self) game version userid)
                       (user_get_extid (user self) game version userid))))"
proof -
  let ?recs = "fetched_by_card self game version userid"
  have a: "\<forall>p\<in>set [0 ..< length ?recs]. p < length ?recs \<and> cards_ok (str_upper self) (?recs ! p)"
    using ok by simp
  have b: "take (length ?recs) ?recs = ?recs" by simp
  show ?thesis
    unfolding profile_request_def Let_def
    using profile_request_loop_find[OF a b, of game version exact]
    by (simp add: fetched_by_card_def map_nth)
qed

lemma lift_result_Some: "lift_result x = Inr (Some out) \<longleftrightarrow> x = Inr out"
  by (cases x) (simp_all add: lift_result_def)

text \<open>
  Claim C3.  For a virtual identity, \<^verbatim>\<open>get_profile\<close> (the strict request) answers with the
  normalized form of the first fetched record that lists the derived card and is marked
  \<^verbatim>\<open>exact\<close>: records that list the card with another marker, or with none, are passed
  over and the scan goes on behind them.  Whatever profile it returns carries the requested
  version and comes from a record marked \<^verbatim>\<open>exact\<close>.
\<close>

theorem get_profile_exact_only:
  assumes "RemoteUser_is_remote (remote self) userid"
    and "\<forall>r\<in>set (fetched_by_card self game version userid). cards_ok (str_upper self) r"
  shows "fst (get_profile self game version userid) =
           (case find (\<lambda>r. RemoteUser_userid_to_card (remote self) userid \<in> set (cards_of (str_upper self) r) \<and>
                            exact_match_of r)
                   (fetched_by_card self game version userid) of
              None \<Rightarrow> Inr None
            | Some r \<Rightarrow> lift_result (format_profile (game_value self)
                          (sanitized r (game_value self game) version
                             (user_get_refid (user self) game version userid)
                             (user_get_extid (user self) game version userid)))) \<and>
         (\<forall>out. fst (get_profile self game version userid) = Inr (Some out) \<longrightarrow>
            map_of out ''version'' = Some (PInt version) \<and>
            (\<exists>r\<in>set (fetched_by_card self game version userid).
               RemoteUser_userid_to_card (remote self) userid \<in> set (cards_of (str_upper self) r) \<and>
               exact_match_of r \<and>
               format_profile (game_value self)
                 (sanitized r (game_value self game) version
                    (user_get_refid (user self) game version userid)
                    (user_get_extid (user self) game version userid)) = Inr out))"
proof -
  let ?recs = "fetched_by_card self game version userid"
  let ?P = "\<lambda>r. RemoteUser_userid_to_card (remote self) userid \<in> set (cards_of (str_upper self) r) \<and> exact_match_of r"
  let ?N = "\<lambda>r. format_profile (game_value self)
                 (sanitized r (game_value self game) version
                    (user_get_refid (user self) game version userid)
                    (user_get_extid (user self) game version userid))"
  have eq: "fst (get_profile self game version userid) =
      (case find ?P ?recs of None \<Rightarrow> Inr None | Some r \<Rightarrow> lift_result (?N r))"
    using assms(1) profile_request_find[OF assms(2), of True]
    by (auto simp: get_profile_def split: option.splits dest: find_Some_iff[THEN iffD1])
  have "map_of out ''version'' = Some (PInt version) \<and> (\<exists>r\<in>set ?recs. ?P r \<and> ?N r = Inr out)"
    if out: "fst (get_profile self game version userid) = Inr (Some out)" for out
  proof (cases "find ?P ?recs")
    case None
    with eq out show ?thesis by simp
  next
    case (Some r)
    with eq out have "lift_result (?N r) = Inr (Some out)" by simp
    then have n: "?N r = Inr out" by (simp add: lift_result_Some)
    from Some have r: "r \<in> set ?recs" "?P r"
      by (auto simp: find_Some_iff)
    from format_profile_sanitized[of "game_value self" r game version
        "user_get_refid (user self) game version userid"
        "user_get_extid (user self) game version userid"] n
    have "map_of out ''version'' = Some (PInt version)" by auto
    with r n show ?thesis by blast
  qed
  with eq show ?thesis by blast
qed

theorem get_profile_exact_only_witness:
  "RemoteUser_is_remote (remote (example_self
      [[[(''cards'', PList [PStr ''b1'', PStr ''a1'']), (''match'', PStr ''partial'')]],
       [[(''cards'', PList [PStr ''a1'']), (''match'', PStr ''exact''), (''area'', PInt 4)]]])) 4294967296 \<and>
   list_all (cards_ok (str_upper (example_self
      [[[(''cards'', PList [PStr ''b1'', PStr ''a1'']), (''match'', PStr ''partial'')]],
       [[(''cards'', PList [PStr ''a1'']), (''match'', PStr ''exact''), (''area'', PInt 4)]]]))) (fetched_by_card (example_self
      [[[(''cards'', PList [PStr ''b1'', PStr ''a1'']), (''match'', PStr ''partial'')]],
       [[(''cards'', PList [PStr ''a1'']), (''match'', PStr ''exact''), (''area'', PInt 4)]]]) IIDX 3 4294967296) \<and>
   fst (get_profile (example_self
      [[[(''cards'', PList [PStr ''b1'', PStr ''a1'']), (''match'', PStr ''partial'')]],
       [[(''cards'', PList [PStr ''a1'']), (''match'', PStr ''exact''), (''area'', PInt 4)]]]) IIDX 3 4294967296) =
     Inr (Some [(''name'', PStr []), (''game'', PStr ''iidx''), (''version'', PInt 3),
                (''refid'', PStr ''RV''), (''extid'', PInt 77), (''qpro'', PDict []), (''pid'', PInt 4)])"
proof -
  let ?S = "example_self
      [[[(''cards'', PList [PStr ''b1'', PStr ''a1'']), (''match'', PStr ''partial'')]],
       [[(''cards'', PList [PStr ''a1'']), (''match'', PStr ''exact''), (''area'', PInt 4)]]]"
  have h1: "RemoteUser_is_remote (remote ?S) 4294967296"
    by (simp add: example_self_def example_remote_def)
  have h2: "\<forall>r\<in>set (fetched_by_card ?S IIDX 3 4294967296). cards_ok (str_upper ?S) r"
    by code_simp
  have c: "(case find (\<lambda>r. RemoteUser_userid_to_card (remote ?S) 4294967296 \<in> set (cards_of (str_upper ?S) r) \<and>
                            exact_match_of r)
                   (fetched_by_card ?S IIDX 3 4294967296) of
              None \<Rightarrow> Inr None
            | Some r \<Rightarrow> lift_result (format_profile (game_value ?S)
                          (sanitized r (game_value ?S IIDX) 3
                             (user_get_refid (user ?S) IIDX 3 4294967296)
                             (user_get_extid (user ?S) IIDX 3 4294967296)))) =
     Inr (Some [(''name'', PStr []), (''game'', PStr ''iidx''), (''version'', PInt 3),
                (''refid'', PStr ''RV''), (''extid'', PInt 77), (''qpro'', PDict []), (''pid'', PInt 4)])"
    by code_simp
  from get_profile_exact_only[OF h1 h2] have
    "fst (get_profile ?S IIDX 3 4294967296) =
       (case find (\<lambda>r. RemoteUser_userid_to_card (remote ?S) 4294967296 \<in> set (cards_of (str_upper ?S) r) \<and>
                            exact_match_of r)
                   (fetched_by_card ?S IIDX 3 4294967296) of
              None \<Rightarrow> Inr None
            | Some r \<Rightarrow> lift_result (format_profile (game_value ?S)
                          (sanitized r (game_value ?S IIDX) 3
                             (user_get_refid (user ?S) IIDX 3 4294967296)
                             (user_get_extid (user ?S) IIDX 3 4294967296))))"
    by (rule conjunct1)
  with c h1 h2 show ?thesis by (simp add: list_all_iff)
qed

text \<open>
  Claim C4.  For a virtual identity, \<^verbatim>\<open>get_any_profile\<close> answers with the normalized form of
  the first record, in the order of the flattened responses, whose upper-cased card list
  contains the derived card; the version of that profile is the requested one when the
  record is marked \<^verbatim>\<open>exact\<close> and 0 otherwise; when no record lists the card the answer
  is the absent value, not an exception.
\<close>

theorem get_any_profile_first_match:
  assumes "RemoteUser_is_remote (remote self) userid"
    and "\<forall>r\<in>set (fetched_by_card self game version userid). cards_ok (str_upper self) r"
  shows "fst (get_any_profile self game version userid) =
           (case find (\<lambda>r. RemoteUser_userid_to_card (remote self) userid \<in> set (cards_of (str_upper self) r))
                   (fetched_by_card self game version userid) of
              None \<Rightarrow> Inr None
            | Some r \<Rightarrow> lift_result (format_profile (game_value self)
                          (sanitized r (game_value self game)
                             (if exact_match_of r then version else 0)
                             (user_get_refid (user self) game version userid)
                             (user_get_extid (user self) game version userid)))) \<and>
         (\<forall>r. find (\<lambda>r. RemoteUser_userid_to_card (remote self) userid \<in> set (cards_of (str_upper self) r))
                 (fetched_by_card self game version userid) = Some r \<longrightarrow>
              (\<exists>out. fst (get_any_profile self game version userid) = Inr (Some out) \<and>
                     map_of out ''version'' = Some (PInt (if exact_match_of r then version else 0)))) \<and>
         ((\<forall>r\<in>set (fetched_by_card self game version userid).
              RemoteUser_userid_to_card (remote self) userid \<notin> set (cards_of (str_upper self) r)) \<longrightarrow>
            fst (get_any_profile self game version userid) = Inr None)"
proof -
  let ?recs = "fetched_by_card self game version userid"
  let ?P = "\<lambda>r. RemoteUser_userid_to_card (remote self) userid \<in> set (cards_of (str_upper self) r)"
  let ?N = "\<lambda>r. format_profile (game_value self)
                 (sanitized r (game_value self game) (if exact_match_of r then version else 0)
                    (user_get_refid (user self) game version userid)
                    (user_get_extid (user self) game version userid))"
  have eq: "fst (get_any_profile self game version userid) =
      (case find ?P ?recs of None \<Rightarrow> Inr None | Some r \<Rightarrow> lift_result (?N r))"
    using assms(1) profile_request_find[OF assms(2), of False]
    by (simp add: get_any_profile_def)
  have some: "\<exists>out. fst (get_any_profile self game version userid) = Inr (Some out) \<and>
                 map_of out ''version'' = Some (PInt (if exact_match_of r then version else 0))"
    if "find ?P ?recs = Some r" for r
  proof -
    from format_profile_sanitized[of "game_value self" r game
        "if exact_match_of r then version else 0"
        "user_get_refid (user self) game version userid"
        "user_get_extid (user self) game version userid"]
    obtain out where "?N r = Inr out"
      "map_of out ''version'' = Some (PInt (if exact_match_of r then version else 0))"
      by blast
    with eq that show ?thesis by (simp add: lift_result_def)
  qed
  have none: "fst (get_any_profile self game version userid) = Inr None"
    if "\<forall>r\<in>set ?recs. \<not> ?P r"
  proof -
    from that have "find ?P ?recs = None" by (simp add: find_None_iff)
    with eq show ?thesis by simp
  qed
  from eq some none show ?thesis by blast
qed

theorem get_any_profile_first_match_witness:
  "RemoteUser_is_remote (remote (example_self
      [[[(''cards'', PList [PStr ''c1''])],
        [(''cards'', PList [PStr ''b1'', PStr ''a1'']), (''match'', PStr ''partial''), (''name'', PStr ''P'')]],
       [[(''cards'', PList [PStr ''a1'']), (''match'', PStr ''exact''), (''area'', PInt 4)]]])) 4294967296 \<and>
   list_all (cards_ok (str_upper (example_self
      [[[(''cards'', PList [PStr ''c1''])],
        [(''cards'', PList [PStr ''b1'', PStr ''a1'']), (''match'', PStr ''partial''), (''name'', PStr ''P'')]],
       [[(''cards'', PList [PStr ''a1'']), (''match'', PStr ''exact''), (''area'', PInt 4)]]]))) (fetched_by_card (example_self
      [[[(''cards'', PList [PStr ''c1''])],
        [(''cards'', PList [PStr ''b1'', PStr ''a1'']), (''match'', PStr ''partial''), (''name'', PStr ''P'')]],
       [[(''cards'', PList [PStr ''a1'']), (''match'', PStr ''exact''), (''area'', PInt 4)]]]) IIDX 3 4294967296) \<and>
   fst (get_any_profile (example_self
      [[[(''cards'', PList [PStr ''c1''])],
        [(''cards'', PList [PStr ''b1'', PStr ''a1'']), (''match'', PStr ''partial''), (''name'', PStr ''P'')]],
       [[(''cards'', PList [PStr ''a1'']), (''match'', PStr ''exact''), (''area'', PInt 4)]]]) IIDX 3 4294967296) =
     Inr (Some [(''name'', PStr ''P''), (''game'', PStr ''iidx''), (''version'', PInt 0),
                (''refid'', PStr ''RV''), (''extid'', PInt 77), (''qpro'', PDict [])])"
proof -
  let ?S = "example_self
      [[[(''cards'', PList [PStr ''c1''])],
        [(''cards'', PList [PStr ''b1'', PStr ''a1'']), (''match'', PStr ''partial''), (''name'', PStr ''P'')]],
       [[(''cards'', PList [PStr ''a1'']), (''match'', PStr ''exact''), (''area'', PInt 4)]]]"
  have h1: "RemoteUser_is_remote (remote ?S) 4294967296"
    by (simp add: example_self_def example_remote_def)
  have h2: "\<forall>r\<in>set (fetched_by_card ?S IIDX 3 4294967296). cards_ok (str_upper ?S) r"
    by code_simp
  have c: "(case find (\<lambda>r. RemoteUser_userid_to_card (remote ?S) 4294967296 \<in> set (cards_of (str_upper ?S) r))
                   (fetched_by_card ?S IIDX 3 4294967296) of
              None \<Rightarrow> Inr None
            | Some r \<Rightarrow> lift_result (format_profile (game_value ?S)
                          (sanitized r (game_value ?S IIDX) (if exact_match_of r then 3 else 0)
                             (user_get_refid (user ?S) IIDX 3 4294967296)
                             (user_get_extid (user ?S) IIDX 3 4294967296)))) =
     Inr (Some [(''name'', PStr ''P''), (''game'', PStr ''iidx''), (''version'', PInt 0),
                (''refid'', PStr ''RV''), (''extid'', PInt 77), (''qpro'', PDict [])])"
    by code_simp
  from get_any_profile_first_match[OF h1 h2] have
    "fst (get_any_profile ?S IIDX 3 4294967296) =
       (case find (\<lambda>r. RemoteUser_userid_to_card (remote ?S) 4294967296 \<in> set (cards_of (str_upper ?S) r))
                   (fetched_by_card ?S IIDX 3 4294967296) of
              None \<Rightarrow> Inr None
            | Some r \<Rightarrow> lift_result (format_profile (game_value ?S)
                          (sanitized r (game_value ?S IIDX) (if exact_match_of r then 3 else 0)
                             (user_get_refid (user ?S) IIDX 3 4294967296)
                             (user_get_extid (user ?S) IIDX 3 4294967296))))"
    by (rule conjunct1)
  with c h1 h2 show ?thesis by (simp add: list_all_iff)
qed

section \<open>Several profiles\<close>

lemma heap_delitem_fresh_missing:
  "\<not> has_key d k \<Longrightarrow> heap_delitem (h @ [d]) (length h) k = Inl KeyError"
  by (simp add: heap_delitem_def delitem_def)

lemma delitem_present: "map_of d k = Some v \<Longrightarrow> delitem d k = Inr (remove_key d k)"
  by (simp add: delitem_def has_key_def)

lemma get_any_profiles_cards_miss:
  "map_of c2u c = None \<Longrightarrow>
   get_any_profiles_cards self game version (c # cards) p c2u lp h =
   get_any_profiles_cards self game version cards p c2u lp h"
  by simp

lemma get_any_profiles_cards_hit:
  assumes "map_of c2u c = Some userid"
  shows "get_any_profiles_cards self game version (c # cards) p c2u lp h =
    (if has_key (h ! p) ''cards'' then
       (case format_profile (game_value self)
               (sanitized (h ! p) (game_value self game)
                  (if exact_match_of (h ! p) then version else 0)
                  (user_get_refid (user self) game version userid)
                  (user_get_extid (user self) game version userid)) of
          Inl e \<Rightarrow> (Inl e, h @ [sanitized (h ! p) (game_value self game)
                  (if exact_match_of (h ! p) then version else 0)
                  (user_get_refid (user self) game version userid)
                  (user_get_extid (user self) game version userid)])
        | Inr r \<Rightarrow>
            get_any_profiles_cards self game version cards (length h) (remove_key c2u c)
              (lp @ [(userid, Some r)])
              (h @ [sanitized (h ! p) (game_value self game)
                  (if exact_match_of (h ! p) then version else 0)
                  (user_get_refid (user self) game version userid)
                  (user_get_extid (user self) game version userid)]))
     else (Inl KeyError, h @ [h ! p]))"
proof (cases "has_key (h ! p) ''cards''")
  case False
  with assms show ?thesis
    by (simp add: deepcopy_def heap_delitem_fresh_missing)
next
  case hk: True
  have rm: "\<not> has_key (h ! p) ''match'' \<Longrightarrow>
      remove_key (remove_key (h ! p) ''cards'') ''match'' = remove_key (h ! p) ''cards''"
    by (rule remove_key_absent) (simp add: has_match_after_del)
  show ?thesis
  proof (cases "has_key (h ! p) ''match''")
    case hm: True
    show ?thesis
      using assms hk hm
      by (simp add: deepcopy_def heap_delitem_fresh[OF hk] exact_match_after_del Let_def
          has_match_after_del heap_setitem_fresh sanitized_def delitem_present
          split: sum.split)
  next
    case hm: False
    show ?thesis
      using assms hk hm rm[OF hm]
      by (simp add: deepcopy_def heap_delitem_fresh[OF hk] exact_match_after_del Let_def
          has_match_after_del heap_setitem_fresh sanitized_def delitem_present
          split: sum.split)
  qed
qed

lemma get_any_profiles_cards_grows:
  "\<exists>ext. snd (get_any_profiles_cards self game version cards p c2u lp h) = h @ ext"
proof (induction cards arbitrary: p c2u lp h)
  case Nil
  then show ?case by simp
next
  case (Cons c cards)
  show ?case
  proof (cases "map_of c2u c")
    case None
    with Cons.IH[of p c2u lp h] show ?thesis
      by (simp only: get_any_profiles_cards_miss[OF None])
  next
    case (Some userid)
    let ?d = "sanitized (h ! p) (game_value self game)
                  (if exact_match_of (h ! p) then version else 0)
                  (user_get_refid (user self) game version userid)
                  (user_get_extid (user self) game version userid)"
    show ?thesis
    proof (cases "has_key (h ! p) ''cards''")
      case False
      then show ?thesis by (simp add: get_any_profiles_cards_hit[OF Some] del: get_any_profiles_cards.simps)
    next
      case True
      show ?thesis
      proof (cases "format_profile (game_value self) ?d")
        case (Inl e)
        with True show ?thesis
          by (simp add: get_any_profiles_cards_hit[OF Some] del: get_any_profiles_cards.simps)
      next
        case (Inr r)
        from Cons.IH[of "length h" "remove_key c2u c" "lp @ [(userid, Some r)]" "h @ [?d]"]
        obtain ext where "snd (get_any_profiles_cards self game version cards (length h)
            (remove_key c2u c) (lp @ [(userid, Some r)]) (h @ [?d])) = (h @ [?d]) @ ext"
          by blast
        with True Inr show ?thesis
          by (simp add: get_any_profiles_cards_hit[OF Some] del: get_any_profiles_cards.simps)
      qed
    qed
  qed
qed

lemma get_any_profiles_cards_success:
  assumes "get_any_profiles_cards self game version cards p c2u lp h = (Inr (c2u', lp'), h')"
  shows "set lp \<subseteq> set lp' \<and>
         (\<forall>k. k \<notin> set cards \<longrightarrow> map_of c2u' k = map_of c2u k) \<and>
         (\<forall>k u. map_of c2u k = Some u \<longrightarrow> map_of c2u' k = Some u \<or> u \<in> fst ` set lp')"
  using assms
proof (induction cards arbitrary: p c2u lp h)
  case Nil
  then show ?case by simp
next
  case (Cons c cards)
  show ?case
  proof (cases "map_of c2u c")
    case None
    from Cons.prems have "get_any_profiles_cards self game version cards p c2u lp h = (Inr (c2u', lp'), h')"
      by (simp only: get_any_profiles_cards_miss[OF None])
    from Cons.IH[OF this] show ?thesis by simp
  next
    case (Some userid)
    let ?d = "sanitized (h ! p) (game_value self game)
                  (if exact_match_of (h ! p) then version else 0)
                  (user_get_refid (user self) game version userid)
                  (user_get_extid (user self) game version userid)"
    from Cons.prems have hk: "has_key (h ! p) ''cards''"
      by (simp add: get_any_profiles_cards_hit[OF Some] del: get_any_profiles_cards.simps split: if_splits)
    from Cons.prems hk obtain r where r: "format_profile (game_value self) ?d = Inr r"
      and rec: "get_any_profiles_cards self game version cards (length h) (remove_key c2u c)
              (lp @ [(userid, Some r)]) (h @ [?d]) = (Inr (c2u', lp'), h')"
      by (simp add: get_any_profiles_cards_hit[OF Some] del: get_any_profiles_cards.simps split: sum.splits)
    from Cons.IH[OF rec] have
      sub: "set (lp @ [(userid, Some r)]) \<subseteq> set lp'" and
      keep: "\<forall>k. k \<notin> set cards \<longrightarrow> map_of c2u' k = map_of (remove_key c2u c) k" and
      cov: "\<forall>k u. map_of (remove_key c2u c) k = Some u \<longrightarrow> map_of c2u' k = Some u \<or> u \<in> fst ` set lp'"
      by blast+
    from sub have "set lp \<subseteq> set lp'" by simp
    moreover from keep have "\<forall>k. k \<notin> set (c # cards) \<longrightarrow> map_of c2u' k = map_of c2u k"
      by (simp add: map_of_remove_key)
    moreover have "map_of c2u' k = Some u \<or> u \<in> fst ` set lp'" if "map_of c2u k = Some u" for k u
    proof (cases "k = c")
      case True
      with that Some have "u = userid" by simp
      with sub show ?thesis by force
    next
      case False
      with that have "map_of (remove_key c2u c) k = Some u" by (simp add: map_of_remove_key)
      with cov show ?thesis by blast
    qed
    ultimately show ?thesis by blast
  qed
qed

lemma get_any_profiles_loop_grows:
  "\<exists>ext. snd (get_any_profiles_loop self game version ps c2u lp h) = h @ ext"
proof (induction ps arbitrary: c2u lp h)
  case Nil
  then show ?case by simp
next
  case (Cons p ps)
  show ?case
  proof (cases "get_cards (str_upper self) (h ! p)")
    case (Inl e)
    then show ?thesis by simp
  next
    case (Inr cards)
    obtain x h1 where R: "get_any_profiles_cards self game version cards p c2u lp h = (x, h1)"
      by (cases "get_any_profiles_cards self game version cards p c2u lp h")
    from get_any_profiles_cards_grows[of self game version cards p c2u lp h] R
    obtain ext1 where h1: "h1 = h @ ext1" by auto
    show ?thesis
    proof (cases x)
      case (Inl e)
      with Inr R h1 show ?thesis by simp
    next
      case (Inr y)
      obtain c2u1 lp1 where y: "y = (c2u1, lp1)" by (cases y)
      from Cons.IH[of c2u1 lp1 h1] obtain ext2 where
        "snd (get_any_profiles_loop self game version ps c2u1 lp1 h1) = h1 @ ext2" by blast
      with \<open>get_cards (str_upper self) (h ! p) = Inr cards\<close> R Inr y h1 show ?thesis by simp
    qed
  qed
qed

lemma get_any_profiles_loop_success:
  assumes "get_any_profiles_loop self game version ps c2u lp h = (Inr (c2u', lp'), h')"
    and "\<forall>p\<in>set ps. p < length recs" and "take (length recs) h = recs"
  shows "set lp \<subseteq> set lp' \<and>
         (\<forall>k. (\<forall>p\<in>set ps. k \<notin> set (cards_of (str_upper self) (recs ! p))) \<longrightarrow> map_of c2u' k = map_of c2u k) \<and>
         (\<forall>k u. map_of c2u k = Some u \<longrightarrow> map_of c2u' k = Some u \<or> u \<in> fst ` set lp')"
  using assms
proof (induction ps arbitrary: c2u lp h)
  case Nil
  then show ?case by simp
next
  case (Cons p ps)
  from Cons.prems(2) have p: "p < length recs" by simp
  with Cons.prems(3) have hp: "h ! p = recs ! p" by (metis nth_take)
  from Cons.prems(3) have len: "length recs \<le> length h"
    by (metis length_take min.cobounded1)
  from Cons.prems(1) obtain cards where gc: "get_cards (str_upper self) (h ! p) = Inr cards"
    by (cases "get_cards (str_upper self) (h ! p)") simp_all
  with hp have co: "cards_of (str_upper self) (recs ! p) = cards" by (simp add: cards_of_def)
  obtain x h1 where R: "get_any_profiles_cards self game version cards p c2u lp h = (x, h1)"
    by (cases "get_any_profiles_cards self game version cards p c2u lp h")
  from Cons.prems(1) gc R obtain c2u1 lp1 where x: "x = Inr (c2u1, lp1)"
    by (cases x) auto
  from Cons.prems(1) gc R x have rest:
    "get_any_profiles_loop self game version ps c2u1 lp1 h1 = (Inr (c2u', lp'), h')" by simp
  from get_any_profiles_cards_grows[of self game version cards p c2u lp h] R
  obtain ext1 where "h1 = h @ ext1" by auto
  with Cons.prems(3) len have t1: "take (length recs) h1 = recs" by simp
  from Cons.prems(2) have ps: "\<forall>p\<in>set ps. p < length recs" by simp
  from get_any_profiles_cards_success[OF R[unfolded x]] have
    i1: "set lp \<subseteq> set lp1" and
    i2: "\<forall>k. k \<notin> set cards \<longrightarrow> map_of c2u1 k = map_of c2u k" and
    i3: "\<forall>k u. map_of c2u k = Some u \<longrightarrow> map_of c2u1 k = Some u \<or> u \<in> fst ` set lp1"
    by blast+
  from Cons.IH[OF rest ps t1] have
    o1: "set lp1 \<subseteq> set lp'" and
    o2: "\<forall>k. (\<forall>p\<in>set ps. k \<notin> set (cards_of (str_upper self) (recs ! p))) \<longrightarrow> map_of c2u' k = map_of c2u1 k" and
    o3: "\<forall>k u. map_of c2u1 k = Some u \<longrightarrow> map_of c2u' k = Some u \<or> u \<in> fst ` set lp'"
    by blast+
  from i1 o1 have "set lp \<subseteq> set lp'" by blast
  moreover from i2 o2 co
  have "\<forall>k. (\<forall>q\<in>set (p # ps). k \<notin> set (cards_of (str_upper self) (recs ! q))) \<longrightarrow> map_of c2u' k = map_of c2u k"
    by simp
  moreover have "map_of c2u' k = Some u \<or> u \<in> fst ` set lp'" if "map_of c2u k = Some u" for k u
  proof -
    from i3 that consider "map_of c2u1 k = Some u" | "u \<in> fst ` set lp1" by blast
    then show ?thesis
    proof cases
      case 1
      with o3 show ?thesis by blast
    next
      case 2
      with o1 show ?thesis by blast
    qed
  qed
  ultimately show ?case by blast
qed

lemma map_of_fold_setitem_other:
  "c \<notin> f ` set us \<Longrightarrow> map_of (fold (\<lambda>u d. setitem d (f u) u) us d) c = map_of d c"
  by (induction us arbitrary: d) (auto simp: map_of_setitem)

lemma map_of_fold_setitem_inj:
  "u \<in> set us \<Longrightarrow> inj_on f (set us) \<Longrightarrow>
   map_of (fold (\<lambda>u d. setitem d (f u) u) us d) (f u) = Some u"
proof (induction us arbitrary: d)
  case Nil
  then show ?case by simp
next
  case (Cons x xs)
  show ?case
  proof (cases "u \<in> set xs")
    case True
    with Cons show ?thesis by (simp add: inj_on_def)
  next
    case False
    with Cons.prems have ux: "u = x" by simp
    from Cons.prems(2) False ux have "f u \<notin> f ` set xs"
      by (auto simp: inj_on_def)
    from map_of_fold_setitem_other[OF this] ux show ?thesis
      by (simp add: map_of_setitem)
  qed
qed

lemma get_any_profiles_result:
  assumes "fst (get_any_profiles self game version userids) = Inr res"
    and "userid \<in> set userids" and "RemoteUser_is_remote (remote self) userid"
  shows "\<exists>c2u' lp' h'.
     get_any_profiles_loop self game version [0 ..< length (fetched_by_cards self game version userids)]
       (fold (\<lambda>userid d. setitem d (RemoteUser_userid_to_card (remote self) userid) userid)
          (filter (\<lambda>userid. RemoteUser_is_remote (remote self) userid) userids) [])
       (user_get_any_profiles (user self) game version
          (filter (\<lambda>userid. \<not> RemoteUser_is_remote (remote self) userid) userids))
       (fetched_by_cards self game version userids) = (Inr (c2u', lp'), h') \<and>
     res = lp' @ map (\<lambda>k. (dict_get c2u' k 0, None)) (map fst c2u')"
proof -
  from assms(2) have ne: "length userids \<noteq> 0" by auto
  from assms(2,3) have rne: "length (filter (\<lambda>userid. RemoteUser_is_remote (remote self) userid) userids) \<noteq> 0"
    by (auto simp: filter_empty_conv)
  show ?thesis
    using assms(1) ne rne
    unfolding get_any_profiles_def Let_def fetched_by_cards_def
    by (auto split: prod.splits sum.splits)
qed

text \<open>
  Claim C7.  When \<^verbatim>\<open>get_any_profiles\<close> returns, every requested virtual identity occurs in
  the returned list, and one whose card is in the card list of no fetched record occurs
  there as the pair of the identity and \<^verbatim>\<open>None\<close>.  The cards of the requested virtual
  identities are pairwise different, as the derivation of identities from cards makes them.
\<close>

theorem get_any_profiles_reports_missing:
  assumes "fst (get_any_profiles self game version userids) = Inr res"
    and "inj_on (RemoteUser_userid_to_card (remote self))
           {u \<in> set userids. RemoteUser_is_remote (remote self) u}"
    and "userid \<in> set userids" and "RemoteUser_is_remote (remote self) userid"
  shows "userid \<in> fst ` set res \<and>
         ((\<forall>r\<in>set (fetched_by_cards self game version userids).
             RemoteUser_userid_to_card (remote self) userid \<notin> set (cards_of (str_upper self) r)) \<longrightarrow>
          (userid, None) \<in> set res)"
proof -
  let ?f = "RemoteUser_userid_to_card (remote self)"
  let ?rids = "filter (\<lambda>userid. RemoteUser_is_remote (remote self) userid) userids"
  let ?c2u = "fold (\<lambda>userid d. setitem d (?f userid) userid) ?rids []"
  let ?recs = "fetched_by_cards self game version userids"
  from get_any_profiles_result[OF assms(1,3,4)] obtain c2u' lp' h' where
    loop: "get_any_profiles_loop self game version [0 ..< length ?recs] ?c2u
       (user_get_any_profiles (user self) game version
          (filter (\<lambda>userid. \<not> RemoteUser_is_remote (remote self) userid) userids))
       ?recs = (Inr (c2u', lp'), h')"
    and res: "res = lp' @ map (\<lambda>k. (dict_get c2u' k 0, None)) (map fst c2u')"
    by blast
  have "set ?rids = {u \<in> set userids. RemoteUser_is_remote (remote self) u}" by auto
  with assms(2) have inj: "inj_on ?f (set ?rids)" by simp
  from assms(3,4) have "userid \<in> set ?rids" by simp
  from map_of_fold_setitem_inj[OF this inj] have start: "map_of ?c2u (?f userid) = Some userid" .
  have a: "\<forall>p\<in>set [0 ..< length ?recs]. p < length ?recs" by simp
  have b: "take (length ?recs) ?recs = ?recs" by simp
  from get_any_profiles_loop_success[OF loop a b] have
    keep: "\<forall>k. (\<forall>p\<in>set [0 ..< length ?recs]. k \<notin> set (cards_of (str_upper self) (?recs ! p))) \<longrightarrow>
               map_of c2u' k = map_of ?c2u k" and
    cov: "\<forall>k u. map_of ?c2u k = Some u \<longrightarrow> map_of c2u' k = Some u \<or> u \<in> fst ` set lp'"
    by blast+
  have left: "(userid, None) \<in> set res" if "map_of c2u' (?f userid) = Some userid"
  proof -
    from that have "(?f userid, userid) \<in> set c2u'" by (rule map_of_SomeD)
    then have "?f userid \<in> set (map fst c2u')" by force
    moreover from that have "dict_get c2u' (?f userid) 0 = userid" by (simp add: dict_get_def)
    ultimately show ?thesis unfolding res by force
  qed
  have one: "userid \<in> fst ` set res"
  proof -
    from cov start consider "map_of c2u' (?f userid) = Some userid" | "userid \<in> fst ` set lp'"
      by blast
    then show ?thesis
    proof cases
      case 1
      from left[OF this] show ?thesis by force
    next
      case 2
      then show ?thesis unfolding res by auto
    qed
  qed
  have two: "(userid, None) \<in> set res"
    if "\<forall>r\<in>set ?recs. ?f userid \<notin> set (cards_of (str_upper self) r)"
  proof -
    from that have "\<forall>p\<in>set [0 ..< length ?recs]. ?f userid \<notin> set (cards_of (str_upper self) (?recs ! p))"
      by simp
    with keep start have "map_of c2u' (?f userid) = Some userid" by simp
    then show ?thesis by (rule left)
  qed
  from one two show ?thesis by blast
qed

theorem get_any_profiles_reports_missing_witness:
  "fst (get_any_profiles
          (example_self [[[(''cards'', PList [PStr ''a1'']), (''name'', PStr ''X'')]], []])
          IIDX 3 [4294967296, 5, 4294967299]) =
     Inr [(5, None),
          (4294967296, Some [(''name'', PStr ''X''), (''game'', PStr ''iidx''), (''version'', PInt 0),
                             (''refid'', PStr ''RV''), (''extid'', PInt 77), (''qpro'', PDict [])]),
          (4294967299, None)] \<and>
   inj_on (RemoteUser_userid_to_card
             (remote (example_self [[[(''cards'', PList [PStr ''a1'']), (''name'', PStr ''X'')]], []])))
     {u \<in> set [4294967296, 5, 4294967299].
        RemoteUser_is_remote
          (remote (example_self [[[(''cards'', PList [PStr ''a1'']), (''name'', PStr ''X'')]], []])) u} \<and>
   list_all
     (\<lambda>r. RemoteUser_userid_to_card
        (remote (example_self [[[(''cards'', PList [PStr ''a1'']), (''name'', PStr ''X'')]], []]))
        4294967299 \<notin> set (cards_of (str_upper (example_self [[[(''cards'', PList [PStr ''a1'']), (''name'', PStr ''X'')]], []])) r))
     (fetched_by_cards
        (example_self [[[(''cards'', PList [PStr ''a1'']), (''name'', PStr ''X'')]], []])
        IIDX 3 [4294967296, 5, 4294967299]) \<and>
   (4294967299, None) \<in> set [(5 :: int, None),
          (4294967296, Some [(''name'', PStr ''X''), (''game'', PStr ''iidx''), (''version'', PInt 0),
                             (''refid'', PStr ''RV''), (''extid'', PInt 77), (''qpro'', PDict [])]),
          (4294967299, None :: pydict option)]"
proof -
  let ?S = "example_self [[[(''cards'', PList [PStr ''a1'']), (''name'', PStr ''X'')]], []]"
  let ?res = "[(5 :: int, None),
          (4294967296, Some [(''name'', PStr ''X''), (''game'', PStr ''iidx''), (''version'', PInt 0),
                             (''refid'', PStr ''RV''), (''extid'', PInt 77), (''qpro'', PDict [])]),
          (4294967299, None)]"
  have h1: "fst (get_any_profiles ?S IIDX 3 [4294967296, 5, 4294967299]) = Inr ?res"
    by code_simp
  have h2: "inj_on (RemoteUser_userid_to_card (remote ?S))
     {u \<in> set [4294967296, 5, 4294967299]. RemoteUser_is_remote (remote ?S) u}"
    by (auto simp: inj_on_def example_self_def example_remote_def)
  have h3: "(4294967299::int) \<in> set [4294967296, 5, 4294967299]" by simp
  have h4: "RemoteUser_is_remote (remote ?S) 4294967299"
    by (simp add: example_self_def example_remote_def)
  have h5: "\<forall>r\<in>set (fetched_by_cards ?S IIDX 3 [4294967296, 5, 4294967299]).
      RemoteUser_userid_to_card (remote ?S) 4294967299 \<notin> set (cards_of (str_upper ?S) r)"
    by code_simp
  have m: "(4294967299, None) \<in> set ?res"
    by (rule get_any_profiles_reports_missing[OF h1 h2 h3 h4, THEN conjunct2, THEN mp, OF h5])
  from h5 have h5': "list_all
     (\<lambda>r. RemoteUser_userid_to_card (remote ?S) 4294967299 \<notin> set (cards_of (str_upper ?S) r))
     (fetched_by_cards ?S IIDX 3 [4294967296, 5, 4294967299])"
    by (simp only: list_all_iff)
  show ?thesis by (intro conjI h1 h2 h5' m)
qed

lemma has_key_sanitized_cards: "\<not> has_key (sanitized d g v refid extid) ''cards''"
  by (simp add: has_key_def sanitized_def map_of_setitem map_of_remove_key)

lemma get_any_profiles_cards_second_hit:
  assumes "map_of card_to_userid c1 = Some u1" and "map_of card_to_userid c2 = Some u2"
    and "c1 \<noteq> c2" and "has_key (h ! p) ''cards''"
  shows "fst (get_any_profiles_cards self game version (c1 # c2 # cards) p card_to_userid
                local_profiles h) = Inl KeyError"
proof -
  let ?d = "sanitized (h ! p) (game_value self game)
              (if exact_match_of (h ! p) then version else 0)
              (user_get_refid (user self) game version u1)
              (user_get_extid (user self) game version u1)"
  from format_profile_sanitized[of "game_value self" "h ! p" game
      "if exact_match_of (h ! p) then version else 0"
      "user_get_refid (user self) game version u1" "user_get_extid (user self) game version u1"]
  obtain r where r: "format_profile (game_value self) ?d = Inr r" by blast
  from assms(2,3) have two: "map_of (remove_key card_to_userid c1) c2 = Some u2"
    by (simp add: map_of_remove_key)
  have gone: "\<not> has_key ((h @ [?d]) ! length h) ''cards''"
    by (simp add: has_key_sanitized_cards)
  show ?thesis
    unfolding get_any_profiles_cards_hit[OF assms(1)]
    using assms(4) r gone
    by (simp add: get_any_profiles_cards_hit[OF two] del: get_any_profiles_cards.simps)
qed

text \<open>
  Claim C1 fails on the code.  One record lists the cards of the two requested virtual
  identities.  The first card is matched on a copy of the record, and the variable
  \<^verbatim>\<open>profile\<close> now holds that copy, which has lost its \<^verbatim>\<open>cards\<close> key; at the second
  card the copy of the copy has no such key either and \<^verbatim>\<open>del profile['cards']\<close> raises
  \<^verbatim>\<open>KeyError\<close>: the call returns no list at all.  The lemma above shows this for any two
  requested cards of one record; the theorem runs the whole function on such a record.
\<close>

theorem get_any_profiles_two_cards_one_record:
  "fst (get_any_profiles
          (example_self [[[(''cards'', PList [PStr ''a1'', PStr ''b1'']), (''name'', PStr ''X'')]]])
          IIDX 3 [4294967296, 4294967297]) = Inl KeyError"
  by code_simp

section \<open>All profiles\<close>

lemma stamped_lookup:
  "map_of (stamped r g v refid extid) ''game'' = Some (PStr g)"
  "map_of (stamped r g v refid extid) ''version'' = Some (PInt v)"
  "map_of (stamped r g v refid extid) ''refid'' = Some (PStr refid)"
  "map_of (stamped r g v refid extid) ''extid'' = Some (PInt extid)"
  by (simp_all add: stamped_def map_of_setitem)

lemma format_profile_stamped:
  "\<exists>out. format_profile gv (stamped r (gv game) v refid extid) = Inr out \<and>
     map_of out ''game'' = Some (PStr (gv game)) \<and> map_of out ''version'' = Some (PInt v) \<and>
     map_of out ''refid'' = Some (PStr refid) \<and> map_of out ''extid'' = Some (PInt extid)"
proof -
  obtain pg where pg: "GameConstants_of gv (PStr (gv game)) = Inr pg"
    using GameConstants_of_value[of gv game] by blast
  let ?d = "stamped r (gv game) v refid extid"
  have notin: "k \<in> {''game'', ''version'', ''refid'', ''extid''} \<Longrightarrow> k \<notin> fst ` set (game_updates pg ?d)" for k
    using keys_game_updates[of pg ?d] by auto
  show ?thesis
    unfolding format_profile_Inr[OF stamped_lookup pg]
    by (simp add: map_of_dict_update_other notin)
qed

lemma sort_Min_Cons:
  fixes cards :: "string list"
  assumes "cards \<noteq> []"
  shows "\<exists>rest. sort cards = Min (set cards) # rest"
proof -
  from assms have "sort cards \<noteq> []" by (metis length_0_conv length_sort)
  then obtain c0 rest where s: "sort cards = c0 # rest" by (cases "sort cards") auto
  have "sorted (c0 # rest)" "set (c0 # rest) = set cards"
    using s by (metis sorted_sort, metis set_sort)
  then have "c0 = Min (set cards)"
    by (intro Min_eqI[symmetric]) auto
  with s show ?thesis by simp
qed

lemma heap_delitem_present:
  "has_key (h ! p) k \<Longrightarrow> heap_delitem h p k = Inr (h[p := remove_key (h ! p) k])"
  by (simp add: heap_delitem_def delitem_def)

lemma has_local_card:
  "(0 < length (filter P (sort (cards :: string list)))) = (\<exists>c\<in>set cards. P c)"
proof -
  have "(filter P (sort cards) \<noteq> []) = (\<exists>c\<in>set (sort cards). P c)"
    by (simp add: filter_empty_conv)
  then show ?thesis by simp
qed

lemma get_all_profiles_loop_Cons:
  assumes "get_cards (str_upper self) (h ! p) = Inr cards" and "p < length h"
  shows "get_all_profiles_loop self game version c2i (p # ps) m h =
    (if cards = [] \<or> (\<exists>c\<in>set cards. has_key c2i c)
     then get_all_profiles_loop self game version c2i ps m h
     else if \<not> exact_match_of (h ! p)
     then get_all_profiles_loop self game version c2i ps m (h[p := remove_key (h ! p) ''cards''])
     else
       (case format_profile (game_value self)
               (stamped (remove_key (h ! p) ''cards'') (game_value self game) version
                  (user_get_refid (user self) game version
                     (RemoteUser_card_to_userid (remote self) (Min (set cards))))
                  (user_get_extid (user self) game version
                     (RemoteUser_card_to_userid (remote self) (Min (set cards))))) of
          Inl e \<Rightarrow> (Inl e,
             h[p := stamped (remove_key (h ! p) ''cards'') (game_value self game) version
                  (user_get_refid (user self) game version
                     (RemoteUser_card_to_userid (remote self) (Min (set cards))))
                  (user_get_extid (user self) game version
                     (RemoteUser_card_to_userid (remote self) (Min (set cards))))])
        | Inr r \<Rightarrow>
            get_all_profiles_loop self game version c2i ps
              (setitem m (RemoteUser_card_to_userid (remote self) (Min (set cards))) r)
              (h[p := stamped (remove_key (h ! p) ''cards'') (game_value self game) version
                  (user_get_refid (user self) game version
                     (RemoteUser_card_to_userid (remote self) (Min (set cards))))
                  (user_get_extid (user self) game version
                     (RemoteUser_card_to_userid (remote self) (Min (set cards))))])))"
proof (cases "cards = [] \<or> (\<exists>c\<in>set cards. has_key c2i c)")
  case True
  with assms(1) show ?thesis
    by (auto simp: Let_def has_local_card simp del: length_greater_0_conv)
next
  case False
  then have ne: "cards \<noteq> []" and nl: "\<not> (\<exists>c\<in>set cards. has_key c2i c)" by auto
  from get_cards_has_key[OF assms(1) ne] have hk: "has_key (h ! p) ''cards''" .
  from sort_Min_Cons[OF ne] obtain rest where s: "sort cards = Min (set cards) # rest" by blast
  have f: "filter (has_key c2i) (Min (set cards) # rest) = []"
    using nl s by (metis filter_False set_sort)
  from f have fr: "filter (has_key c2i) rest = []" and fh: "\<not> has_key c2i (Min (set cards))"
    by (auto split: if_splits)
  show ?thesis
    using assms ne nl
    by (simp add: s fr fh Let_def heap_delitem_present[OF hk] exact_match_after_del heap_setitem_def
        stamped_def split: sum.split)
qed

lemma has_key_fold_setitem:
  "has_key (fold (\<lambda>(k, v) d. setitem d k v) kvs d) c \<longleftrightarrow> c \<in> fst ` set kvs \<or> has_key d c"
  by (induction kvs arbitrary: d) (auto simp: has_key_def map_of_setitem split: if_splits)

lemma has_key_local_card_table:
  "has_key (local_card_table self) c \<longleftrightarrow> c \<in> fst ` set (user_get_all_cards (user self))"
  unfolding local_card_table_def has_key_fold_setitem by (simp add: has_key_def)

text \<open>
  Claim C5.  In the loop of \<^verbatim>\<open>get_all_profiles\<close>, a record one of whose upper-cased cards
  is a key of the local card table is passed over as a whole, whatever its match marker:
  the loop goes on with the same identity table and the same record objects, so no
  identity is made from its cards and no entry of the table is overwritten by it.  The
  cards are upper-cased by \<^verbatim>\<open>str.upper\<close> itself, whatever it does to a string.
\<close>

theorem get_all_profiles_local_card_discards:
  assumes "get_cards (str_upper self) (h ! p) = Inr cards" and "p < length h"
    and "\<exists>c\<in>set cards. c \<in> fst ` set (user_get_all_cards (user self))"
  shows "get_all_profiles_loop self game version (local_card_table self) (p # ps) id_to_profile h =
         get_all_profiles_loop self game version (local_card_table self) ps id_to_profile h"
  using assms(3)
  by (simp add: get_all_profiles_loop_Cons[OF assms(1,2)] has_key_local_card_table
      del: get_all_profiles_loop.simps)

theorem get_all_profiles_local_card_discards_witness:
  "get_cards (str_upper (example_self [])) ([[(''cards'', PList [PStr ''b1'', PStr ''l1'']), (''match'', PStr ''exact'')]] ! 0) =
     Inr [''B1'', ''L1''] \<and>
   (\<exists>c\<in>set [''B1'', ''L1'']. c \<in> fst ` set (user_get_all_cards (user (example_self [])))) \<and>
   get_all_profiles_loop (example_self []) IIDX 3 (local_card_table (example_self [])) [0]
     [(1, [(''name'', PStr ''LOCAL'')])]
     [[(''cards'', PList [PStr ''b1'', PStr ''l1'']), (''match'', PStr ''exact'')]] =
   (Inr [(1, [(''name'', PStr ''LOCAL'')])],
    [[(''cards'', PList [PStr ''b1'', PStr ''l1'']), (''match'', PStr ''exact'')]]) \<and>
   get_all_profiles
     (example_self [[[(''cards'', PList [PStr ''b1'', PStr ''l1'']), (''match'', PStr ''exact'')]]]) IIDX 3 =
   (Inr [(1, [(''name'', PStr ''LOCAL'')])],
    [[(''cards'', PList [PStr ''b1'', PStr ''l1'']), (''match'', PStr ''exact'')]]) \<and>
   get_cards (str_upper (example_self []))
     ([[(''cards'', PList [PStr [CHR 0xE9, CHR ''1'']]), (''match'', PStr ''exact'')]] ! 0) =
     Inr [[CHR 0xC9, CHR ''1'']] \<and>
   get_all_profiles_loop (example_self []) IIDX 3 (local_card_table (example_self [])) [0]
     [(1, [(''name'', PStr ''LOCAL'')])]
     [[(''cards'', PList [PStr [CHR 0xE9, CHR ''1'']]), (''match'', PStr ''exact'')]] =
   (Inr [(1, [(''name'', PStr ''LOCAL'')])],
    [[(''cards'', PList [PStr [CHR 0xE9, CHR ''1'']]), (''match'', PStr ''exact'')]])"
proof -
  let ?h = "[[(''cards'', PList [PStr ''b1'', PStr ''l1'']), (''match'', PStr ''exact'')]]"
  have h1: "get_cards (str_upper (example_self [])) (?h ! 0) = Inr [''B1'', ''L1'']" by code_simp
  have h2: "(0::nat) < length ?h" by simp
  have h3: "\<exists>c\<in>set [''B1'', ''L1'']. c \<in> fst ` set (user_get_all_cards (user (example_self [])))"
    by (simp add: example_self_def example_user_def)
  have t: "get_all_profiles_loop (example_self []) IIDX 3 (local_card_table (example_self [])) [0]
            [(1, [(''name'', PStr ''LOCAL'')])] ?h = (Inr [(1, [(''name'', PStr ''LOCAL'')])], ?h)"
    by (simp only: get_all_profiles_local_card_discards[OF h1 h2 h3] get_all_profiles_loop.simps(1))
  have e: "get_all_profiles (example_self [?h]) IIDX 3 = (Inr [(1, [(''name'', PStr ''LOCAL'')])], ?h)"
    by code_simp
  let ?g = "[[(''cards'', PList [PStr [CHR 0xE9, CHR ''1'']]), (''match'', PStr ''exact'')]]"
  have g1: "get_cards (str_upper (example_self [])) (?g ! 0) = Inr [[CHR 0xC9, CHR ''1'']]"
    by code_simp
  have g2: "(0::nat) < length ?g" by simp
  have g3: "\<exists>c\<in>set [[CHR 0xC9, CHR ''1'']].
              c \<in> fst ` set (user_get_all_cards (user (example_self [])))"
    by (simp add: example_self_def example_user_def)
  have tg: "get_all_profiles_loop (example_self []) IIDX 3 (local_card_table (example_self [])) [0]
            [(1, [(''name'', PStr ''LOCAL'')])] ?g = (Inr [(1, [(''name'', PStr ''LOCAL'')])], ?g)"
    by (simp only: get_all_profiles_local_card_discards[OF g1 g2 g3] get_all_profiles_loop.simps(1))
  show ?thesis by (intro conjI h1 h3 t e g1 tg)
qed

text \<open>
  Claim C6.  In the loop of \<^verbatim>\<open>get_all_profiles\<close>, a record with no card is passed over; a
  record with cards, none of them in the local card table, whose marker is not \<^verbatim>\<open>exact\<close>
  adds nothing to the identity table; and one whose marker is \<^verbatim>\<open>exact\<close> adds exactly one
  entry, keyed by the identity derived from the least of its upper-cased cards in
  lexicographic order, holding the normalized profile with the requested version.  The
  cards are upper-cased by \<^verbatim>\<open>str.upper\<close> itself, whatever it does to a string.  A record
  with the cards \<^verbatim>\<open>B1\<close> and \<^verbatim>\<open>A1\<close> gives the identity of \<^verbatim>\<open>A1\<close>.
\<close>

theorem get_all_profiles_remote_record:
  assumes "get_cards (str_upper self) (h ! p) = Inr cards" and "p < length h"
  shows "(cards = [] \<longrightarrow>
            get_all_profiles_loop self game version card_to_id (p # ps) id_to_profile h =
            get_all_profiles_loop self game version card_to_id ps id_to_profile h) \<and>
         (cards \<noteq> [] \<and> (\<forall>c\<in>set cards. \<not> has_key card_to_id c) \<and> \<not> exact_match_of (h ! p) \<longrightarrow>
            get_all_profiles_loop self game version card_to_id (p # ps) id_to_profile h =
            get_all_profiles_loop self game version card_to_id ps id_to_profile
              (h[p := remove_key (h ! p) ''cards''])) \<and>
         (cards \<noteq> [] \<and> (\<forall>c\<in>set cards. \<not> has_key card_to_id c) \<and> exact_match_of (h ! p) \<longrightarrow>
            (\<exists>r. get_all_profiles_loop self game version card_to_id (p # ps) id_to_profile h =
                     get_all_profiles_loop self game version card_to_id ps
                       (setitem id_to_profile
                          (RemoteUser_card_to_userid (remote self) (Min (set cards))) r)
                       (h[p := stamped (remove_key (h ! p) ''cards'') (game_value self game) version
                         (user_get_refid (user self) game version
                            (RemoteUser_card_to_userid (remote self) (Min (set cards))))
                         (user_get_extid (user self) game version
                            (RemoteUser_card_to_userid (remote self) (Min (set cards))))]) \<and>
                    map_of r ''version'' = Some (PInt version) \<and>
                    format_profile (game_value self)
                      (stamped (remove_key (h ! p) ''cards'') (game_value self game) version
                         (user_get_refid (user self) game version
                            (RemoteUser_card_to_userid (remote self) (Min (set cards))))
                         (user_get_extid (user self) game version
                            (RemoteUser_card_to_userid (remote self) (Min (set cards))))) = Inr r)) \<and>
         fst (get_all_profiles
                (example_self [[[(''cards'', PList [PStr ''B1'', PStr ''A1'']), (''match'', PStr ''exact'')]]])
                IIDX 3) =
           Inr [(1, [(''name'', PStr ''LOCAL'')]),
                (RemoteUser_card_to_userid example_remote ''A1'',
                 [(''name'', PStr []), (''game'', PStr ''iidx''), (''version'', PInt 3),
                  (''refid'', PStr ''RV''), (''extid'', PInt 77), (''qpro'', PDict [])])]"
proof -
  let ?uid = "RemoteUser_card_to_userid (remote self) (Min (set cards))"
  let ?d = "stamped (remove_key (h ! p) ''cards'') (game_value self game) version
              (user_get_refid (user self) game version ?uid)
              (user_get_extid (user self) game version ?uid)"
  from format_profile_stamped[of "game_value self" "remove_key (h ! p) ''cards''" game version
      "user_get_refid (user self) game version ?uid" "user_get_extid (user self) game version ?uid"]
  obtain r where r: "format_profile (game_value self) ?d = Inr r"
    and v: "map_of r ''version'' = Some (PInt version)" by blast
  have a: "cards = [] \<longrightarrow>
            get_all_profiles_loop self game version card_to_id (p # ps) id_to_profile h =
            get_all_profiles_loop self game version card_to_id ps id_to_profile h"
    by (simp add: get_all_profiles_loop_Cons[OF assms] del: get_all_profiles_loop.simps)
  have b: "cards \<noteq> [] \<and> (\<forall>c\<in>set cards. \<not> has_key card_to_id c) \<and> \<not> exact_match_of (h ! p) \<longrightarrow>
            get_all_profiles_loop self game version card_to_id (p # ps) id_to_profile h =
            get_all_profiles_loop self game version card_to_id ps id_to_profile
              (h[p := remove_key (h ! p) ''cards''])"
    by (simp add: get_all_profiles_loop_Cons[OF assms] del: get_all_profiles_loop.simps)
  have c: "cards \<noteq> [] \<and> (\<forall>c\<in>set cards. \<not> has_key card_to_id c) \<and> exact_match_of (h ! p) \<longrightarrow>
            (\<exists>r. get_all_profiles_loop self game version card_to_id (p # ps) id_to_profile h =
                     get_all_profiles_loop self game version card_to_id ps
                       (setitem id_to_profile ?uid r) (h[p := ?d]) \<and>
                    map_of r ''version'' = Some (PInt version) \<and>
                    format_profile (game_value self) ?d = Inr r)"
  proof
    assume "cards \<noteq> [] \<and> (\<forall>c\<in>set cards. \<not> has_key card_to_id c) \<and> exact_match_of (h ! p)"
    then have "get_all_profiles_loop self game version card_to_id (p # ps) id_to_profile h =
               get_all_profiles_loop self game version card_to_id ps
                 (setitem id_to_profile ?uid r) (h[p := ?d])"
      by (simp add: get_all_profiles_loop_Cons[OF assms] r del: get_all_profiles_loop.simps)
    with r v show "\<exists>r. get_all_profiles_loop self game version card_to_id (p # ps) id_to_profile h =
                     get_all_profiles_loop self game version card_to_id ps
                       (setitem id_to_profile ?uid r) (h[p := ?d]) \<and>
                    map_of r ''version'' = Some (PInt version) \<and>
                    format_profile (game_value self) ?d = Inr r"
      by blast
  qed
  have e: "fst (get_all_profiles
                (example_self [[[(''cards'', PList [PStr ''B1'', PStr ''A1'']), (''match'', PStr ''exact'')]]])
                IIDX 3) =
           Inr [(1, [(''name'', PStr ''LOCAL'')]),
                (RemoteUser_card_to_userid example_remote ''A1'',
                 [(''name'', PStr []), (''game'', PStr ''iidx''), (''version'', PInt 3),
                  (''refid'', PStr ''RV''), (''extid'', PInt 77), (''qpro'', PDict [])])]"
    by code_simp
  show ?thesis by (intro conjI a b c e)
qed

theorem get_all_profiles_remote_record_witness:
  "get_cards (str_upper (example_self [])) ([[(''cards'', PList [PStr ''b1'', PStr ''a1'']), (''match'', PStr ''exact'')]] ! 0) =
     Inr [''B1'', ''A1''] \<and>
   list_all (\<lambda>c. \<not> has_key (local_card_table (example_self [])) c) [''B1'', ''A1''] \<and>
   exact_match_of ([[(''cards'', PList [PStr ''b1'', PStr ''a1'']), (''match'', PStr ''exact'')]] ! 0) \<and>
   Min (set [''B1'', ''A1'']) = ''A1'' \<and>
   get_all_profiles_loop (example_self []) IIDX 3 (local_card_table (example_self [])) [0]
     [(1, [(''name'', PStr ''LOCAL'')])]
     [[(''cards'', PList [PStr ''b1'', PStr ''a1'']), (''match'', PStr ''exact'')]] =
   (Inr [(1, [(''name'', PStr ''LOCAL'')]),
         (4294967296,
          [(''name'', PStr []), (''game'', PStr ''iidx''), (''version'', PInt 3),
           (''refid'', PStr ''RV''), (''extid'', PInt 77), (''qpro'', PDict [])])],
    [[(''match'', PStr ''exact''), (''game'', PStr ''iidx''), (''version'', PInt 3),
      (''refid'', PStr ''RV''), (''extid'', PInt 77)]]) \<and>
   get_cards (str_upper (example_self []))
     [(''cards'', PList [PStr [CHR 0xE9, CHR ''0'']]), (''match'', PStr ''exact'')] =
     Inr [[CHR 0xC9, CHR ''0'']] \<and>
   fst (get_all_profiles
          (example_self [[[(''cards'', PList [PStr [CHR 0xE9, CHR ''0'']]), (''match'', PStr ''exact'')]]])
          IIDX 3) =
     Inr [(1, [(''name'', PStr ''LOCAL'')]),
          (4294967300,
           [(''name'', PStr []), (''game'', PStr ''iidx''), (''version'', PInt 3),
            (''refid'', PStr ''RV''), (''extid'', PInt 77), (''qpro'', PDict [])])]"
proof -
  let ?S = "example_self []"
  let ?h = "[[(''cards'', PList [PStr ''b1'', PStr ''a1'']), (''match'', PStr ''exact'')]]"
  let ?d = "[(''match'', PStr ''exact''), (''game'', PStr ''iidx''), (''version'', PInt 3),
      (''refid'', PStr ''RV''), (''extid'', PInt 77)]"
  let ?out = "[(''name'', PStr []), (''game'', PStr ''iidx''), (''version'', PInt 3),
           (''refid'', PStr ''RV''), (''extid'', PInt 77), (''qpro'', PDict [])]"
  have h1: "get_cards (str_upper ?S) (?h ! 0) = Inr [''B1'', ''A1'']" by code_simp
  have h2: "(0::nat) < length ?h" by simp
  have h3: "\<forall>c\<in>set [''B1'', ''A1'']. \<not> has_key (local_card_table ?S) c" by code_simp
  have h4: "exact_match_of (?h ! 0)" by code_simp
  have h5: "Min (set [''B1'', ''A1'']) = ''A1''" by code_simp
  have f: "format_profile (game_value ?S)
              (stamped (remove_key (?h ! 0) ''cards'') (game_value ?S IIDX) 3
             (user_get_refid (user ?S) IIDX 3 (RemoteUser_card_to_userid (remote ?S) (Min (set [''B1'', ''A1'']))))
             (user_get_extid (user ?S) IIDX 3 (RemoteUser_card_to_userid (remote ?S) (Min (set [''B1'', ''A1'']))))) = Inr ?out"
    by code_simp
  from get_all_profiles_remote_record[OF h1 h2, of IIDX 3 "local_card_table ?S" "[]"
      "[(1, [(''name'', PStr ''LOCAL'')])]"] h3 h4
  obtain r where
    l: "get_all_profiles_loop ?S IIDX 3 (local_card_table ?S) [0] [(1, [(''name'', PStr ''LOCAL'')])] ?h =
        get_all_profiles_loop ?S IIDX 3 (local_card_table ?S) []
          (setitem [(1, [(''name'', PStr ''LOCAL'')])]
             (RemoteUser_card_to_userid (remote ?S) (Min (set [''B1'', ''A1'']))) r)
          (?h[0 := stamped (remove_key (?h ! 0) ''cards'') (game_value ?S IIDX) 3
             (user_get_refid (user ?S) IIDX 3 (RemoteUser_card_to_userid (remote ?S) (Min (set [''B1'', ''A1'']))))
             (user_get_extid (user ?S) IIDX 3 (RemoteUser_card_to_userid (remote ?S) (Min (set [''B1'', ''A1'']))))])"
    and r: "format_profile (game_value ?S)
              (stamped (remove_key (?h ! 0) ''cards'') (game_value ?S IIDX) 3
             (user_get_refid (user ?S) IIDX 3 (RemoteUser_card_to_userid (remote ?S) (Min (set [''B1'', ''A1'']))))
             (user_get_extid (user ?S) IIDX 3 (RemoteUser_card_to_userid (remote ?S) (Min (set [''B1'', ''A1'']))))) = Inr r"
    by blast
  from r f have r': "r = ?out" by simp
  have t: "get_all_profiles_loop ?S IIDX 3 (local_card_table ?S) [0] [(1, [(''name'', PStr ''LOCAL'')])] ?h =
     (Inr [(1, [(''name'', PStr ''LOCAL'')]), (4294967296, ?out)], [?d])"
    unfolding l r' by code_simp
  from h3 have h3': "list_all (\<lambda>c. \<not> has_key (local_card_table ?S) c) [''B1'', ''A1'']"
    by (simp only: list_all_iff)
  have a1: "get_cards (str_upper ?S)
               [(''cards'', PList [PStr [CHR 0xE9, CHR ''0'']]), (''match'', PStr ''exact'')] =
             Inr [[CHR 0xC9, CHR ''0'']]"
    by code_simp
  have a2: "fst (get_all_profiles
          (example_self [[[(''cards'', PList [PStr [CHR 0xE9, CHR ''0'']]), (''match'', PStr ''exact'')]]])
          IIDX 3) =
     Inr [(1, [(''name'', PStr ''LOCAL'')]), (4294967300, ?out)]"
    by code_simp
  show ?thesis by (intro conjI h1 h3' h4 h5 t a1 a2)
qed

lemma get_all_profiles_loop_step_success:
  assumes "get_all_profiles_loop self game version c2i (p # ps) m h = (Inr m', h')"
    and "p < length h"
  shows "\<exists>m1. get_all_profiles_loop self game version c2i ps m1
                (h[p := get_all_profiles_effect self game version c2i (h ! p)]) = (Inr m', h')"
proof -
  from assms(1) obtain cards where gc: "get_cards (str_upper self) (h ! p) = Inr cards"
    by (cases "get_cards (str_upper self) (h ! p)") simp_all
  note step = get_all_profiles_loop_Cons[OF gc assms(2), of game version c2i ps m]
  consider (skip) "cards = [] \<or> (\<exists>c\<in>set cards. has_key c2i c)"
    | (partial) "\<not> (cards = [] \<or> (\<exists>c\<in>set cards. has_key c2i c))" "\<not> exact_match_of (h ! p)"
    | (exact) "\<not> (cards = [] \<or> (\<exists>c\<in>set cards. has_key c2i c))" "exact_match_of (h ! p)"
    by blast
  then show ?thesis
  proof cases
    case skip
    then have "get_all_profiles_effect self game version c2i (h ! p) = h ! p"
      by (auto simp: get_all_profiles_effect_def gc)
    with assms(1) skip step show ?thesis by (auto simp del: get_all_profiles_loop.simps)
  next
    case partial
    then have "get_all_profiles_effect self game version c2i (h ! p) = remove_key (h ! p) ''cards''"
      by (auto simp: get_all_profiles_effect_def gc)
    with assms(1) partial step show ?thesis by (auto simp del: get_all_profiles_loop.simps)
  next
    case exact
    let ?d = "stamped (remove_key (h ! p) ''cards'') (game_value self game) version
                 (user_get_refid (user self) game version
                    (RemoteUser_card_to_userid (remote self) (Min (set cards))))
                 (user_get_extid (user self) game version
                    (RemoteUser_card_to_userid (remote self) (Min (set cards))))"
    from exact have e: "get_all_profiles_effect self game version c2i (h ! p) = ?d"
      by (auto simp: get_all_profiles_effect_def gc)
    from assms(1) exact step show ?thesis
      unfolding e
      by (cases "format_profile (game_value self) ?d") (auto simp del: get_all_profiles_loop.simps)
  qed
qed

lemma get_all_profiles_loop_heap:
  assumes "get_all_profiles_loop self game version c2i ps m h = (Inr m', h')"
    and "distinct ps" and "\<forall>p\<in>set ps. p < length h"
  shows "length h' = length h \<and>
         (\<forall>i<length h. h' ! i =
            (if i \<in> set ps then get_all_profiles_effect self game version c2i (h ! i) else h ! i))"
  using assms
proof (induction ps arbitrary: m h)
  case Nil
  then show ?case by simp
next
  case (Cons p ps)
  from Cons.prems have p: "p < length h" "p \<notin> set ps" by auto
  let ?h1 = "h[p := get_all_profiles_effect self game version c2i (h ! p)]"
  from get_all_profiles_loop_step_success[OF Cons.prems(1) p(1)] obtain m1 where
    rest: "get_all_profiles_loop self game version c2i ps m1 ?h1 = (Inr m', h')" by blast
  from Cons.prems have d: "distinct ps" and b: "\<forall>q\<in>set ps. q < length ?h1" by auto
  from Cons.IH[OF rest d b] have
    len: "length h' = length ?h1" and
    ih: "\<forall>i<length ?h1. h' ! i =
            (if i \<in> set ps then get_all_profiles_effect self game version c2i (?h1 ! i) else ?h1 ! i)"
    by blast+
  have "h' ! i = (if i \<in> set (p # ps) then get_all_profiles_effect self game version c2i (h ! i) else h ! i)"
    if "i < length h" for i
  proof (cases "i = p")
    case True
    with ih p that show ?thesis by simp
  next
    case False
    with ih that show ?thesis by simp
  qed
  with len show ?case by simp
qed

lemma has_key_stamped_cards: "has_key (stamped d g v refid extid) ''cards'' = has_key d ''cards''"
  by (simp add: has_key_def stamped_def map_of_setitem)

lemma not_has_key_remove_key: "\<not> has_key (remove_key d k) k"
  by (simp add: has_key_def map_of_remove_key)

lemma profile_request_frame:
  "take (length (fetched_by_card self game version userid))
     (snd (profile_request self game version userid exact)) =
   fetched_by_card self game version userid"
  unfolding profile_request_def Let_def fetched_by_card_def[symmetric]
  using profile_request_loop_frame[of "length (fetched_by_card self game version userid)"
      "fetched_by_card self game version userid"]
  by simp

lemma get_any_profiles_frame:
  assumes "filter (\<lambda>userid. RemoteUser_is_remote (remote self) userid) userids \<noteq> []"
  shows "take (length (fetched_by_cards self game version userids))
           (snd (get_any_profiles self game version userids)) =
         fetched_by_cards self game version userids"
proof -
  let ?recs = "fetched_by_cards self game version userids"
  let ?loop = "get_any_profiles_loop self game version [0 ..< length ?recs]
       (fold (\<lambda>userid d. setitem d (RemoteUser_userid_to_card (remote self) userid) userid)
          (filter (\<lambda>userid. RemoteUser_is_remote (remote self) userid) userids) [])
       (user_get_any_profiles (user self) game version
          (filter (\<lambda>userid. \<not> RemoteUser_is_remote (remote self) userid) userids))
       ?recs"
  from assms have ne: "userids \<noteq> []" by auto
  have s: "snd (get_any_profiles self game version userids) = snd ?loop"
    using assms ne
    unfolding get_any_profiles_def Let_def fetched_by_cards_def
    by (auto split: prod.splits sum.splits)
  from get_any_profiles_loop_grows obtain ext where "snd ?loop = ?recs @ ext" by blast
  with s show ?thesis by simp
qed

text \<open>
  Claim C9.  \<^verbatim>\<open>get_all_profiles\<close> writes to the fetched records themselves: when it returns,
  a record that had cards, none of them in the local card table, has lost its \<^verbatim>\<open>cards\<close>
  key, and when its marker is not \<^verbatim>\<open>exact\<close> that deletion is all that happened to it,
  although the record gave no profile.  \<^verbatim>\<open>__profile_request\<close> and \<^verbatim>\<open>get_any_profiles\<close>
  write to copies only: whatever they return or raise, the fetched records are as they were.
\<close>

theorem get_all_profiles_mutates_records:
  assumes "get_all_profiles self game version = (Inr res, h')"
    and "i < length (fetched_all self game version)"
    and "get_cards (str_upper self) (fetched_all self game version ! i) = Inr cards"
    and "cards \<noteq> []"
    and "\<forall>c\<in>set cards. c \<notin> fst ` set (user_get_all_cards (user self))"
  shows "length h' = length (fetched_all self game version) \<and>
         has_key (fetched_all self game version ! i) ''cards'' \<and>
         \<not> has_key (h' ! i) ''cards'' \<and>
         (\<not> exact_match_of (fetched_all self game version ! i) \<longrightarrow>
            h' ! i = remove_key (fetched_all self game version ! i) ''cards'') \<and>
         take (length (fetched_by_card self game version userid))
           (snd (profile_request self game version userid exact)) =
           fetched_by_card self game version userid \<and>
         (filter (\<lambda>userid. RemoteUser_is_remote (remote self) userid) userids \<noteq> [] \<longrightarrow>
            take (length (fetched_by_cards self game version userids))
              (snd (get_any_profiles self game version userids)) =
            fetched_by_cards self game version userids)"
proof -
  let ?recs = "fetched_all self game version"
  let ?c2i = "local_card_table self"
  from assms(1) have loop: "get_all_profiles_loop self game version ?c2i [0 ..< length ?recs]
      (fold (\<lambda>(userid, profile) d. setitem d userid profile)
         (user_get_all_profiles (user self) game version) []) ?recs = (Inr res, h')"
    by (simp add: get_all_profiles_def Let_def fetched_all_def local_card_table_def)
  have "distinct [0 ..< length ?recs]" "\<forall>p\<in>set [0 ..< length ?recs]. p < length ?recs" by simp_all
  from get_all_profiles_loop_heap[OF loop this] assms(2) have
    len: "length h' = length ?recs" and
    eff: "h' ! i = get_all_profiles_effect self game version ?c2i (?recs ! i)"
    by simp_all
  from assms(5) have nl: "\<not> (\<exists>c\<in>set cards. has_key ?c2i c)"
    by (simp add: has_key_local_card_table)
  from get_cards_has_key[OF assms(3,4)] have hk: "has_key (?recs ! i) ''cards''" .
  from eff assms(3,4) nl have gone: "\<not> has_key (h' ! i) ''cards''"
    by (simp add: get_all_profiles_effect_def has_key_stamped_cards not_has_key_remove_key)
  from eff assms(3,4) nl have part: "\<not> exact_match_of (?recs ! i) \<longrightarrow> h' ! i = remove_key (?recs ! i) ''cards''"
    by (simp add: get_all_profiles_effect_def)
  from len hk gone part profile_request_frame[of self game version userid exact]
    get_any_profiles_frame[of self userids game version]
  show ?thesis by blast
qed

theorem get_all_profiles_mutates_records_witness:
  "get_all_profiles (example_self [[[(''cards'', PList [PStr ''b1'']), (''match'', PStr ''partial'')]]]) IIDX 3 =
     (Inr [(1, [(''name'', PStr ''LOCAL'')])], [[(''match'', PStr ''partial'')]]) \<and>
   get_cards (str_upper (example_self [[[(''cards'', PList [PStr ''b1'']), (''match'', PStr ''partial'')]]])) (fetched_all
      (example_self [[[(''cards'', PList [PStr ''b1'']), (''match'', PStr ''partial'')]]]) IIDX 3 ! 0) =
     Inr [''B1''] \<and>
   list_all (\<lambda>c. c \<notin> fst ` set (user_get_all_cards (user
      (example_self [[[(''cards'', PList [PStr ''b1'']), (''match'', PStr ''partial'')]]])))) [''B1''] \<and>
   has_key (fetched_all
      (example_self [[[(''cards'', PList [PStr ''b1'']), (''match'', PStr ''partial'')]]]) IIDX 3 ! 0) ''cards'' \<and>
   \<not> has_key ([[(''match'', PStr ''partial'')]] ! 0) ''cards'' \<and>
   snd (profile_request
      (example_self [[[(''cards'', PList [PStr ''b1'']), (''match'', PStr ''partial'')]]]) IIDX 3 4294967297 False) =
     [[(''cards'', PList [PStr ''b1'']), (''match'', PStr ''partial'')],
      [(''game'', PStr ''iidx''), (''version'', PInt 0), (''refid'', PStr ''RV''), (''extid'', PInt 77)]] \<and>
   take (length (fetched_by_card
      (example_self [[[(''cards'', PList [PStr ''b1'']), (''match'', PStr ''partial'')]]]) IIDX 3 4294967297))
     (snd (profile_request
        (example_self [[[(''cards'', PList [PStr ''b1'']), (''match'', PStr ''partial'')]]]) IIDX 3 4294967297 False)) =
     fetched_by_card
      (example_self [[[(''cards'', PList [PStr ''b1'']), (''match'', PStr ''partial'')]]]) IIDX 3 4294967297 \<and>
   filter (\<lambda>userid. RemoteUser_is_remote (remote
      (example_self [[[(''cards'', PList [PStr ''b1'']), (''match'', PStr ''partial'')]]])) userid)
     [4294967297] \<noteq> [] \<and>
   take (length (fetched_by_cards
      (example_self [[[(''cards'', PList [PStr ''b1'']), (''match'', PStr ''partial'')]]]) IIDX 3 [4294967297]))
     (snd (get_any_profiles
        (example_self [[[(''cards'', PList [PStr ''b1'']), (''match'', PStr ''partial'')]]]) IIDX 3 [4294967297])) =
     fetched_by_cards
      (example_self [[[(''cards'', PList [PStr ''b1'']), (''match'', PStr ''partial'')]]]) IIDX 3 [4294967297]"
proof -
  let ?S = "example_self [[[(''cards'', PList [PStr ''b1'']), (''match'', PStr ''partial'')]]]"
  have h1: "get_all_profiles ?S IIDX 3 = (Inr [(1, [(''name'', PStr ''LOCAL'')])], [[(''match'', PStr ''partial'')]])"
    by code_simp
  have h2: "0 < length (fetched_all ?S IIDX 3)" by code_simp
  have h3: "get_cards (str_upper ?S) (fetched_all ?S IIDX 3 ! 0) = Inr [''B1'']" by code_simp
  have h4: "[''B1''] \<noteq> []" by simp
  have h5: "\<forall>c\<in>set [''B1'']. c \<notin> fst ` set (user_get_all_cards (user ?S))"
    by (simp add: example_self_def example_user_def)
  have e: "snd (profile_request ?S IIDX 3 4294967297 False) =
     [[(''cards'', PList [PStr ''b1'']), (''match'', PStr ''partial'')],
      [(''game'', PStr ''iidx''), (''version'', PInt 0), (''refid'', PStr ''RV''), (''extid'', PInt 77)]]"
    by code_simp
  have h6: "filter (\<lambda>userid. RemoteUser_is_remote (remote ?S) userid) [4294967297] \<noteq> []"
    by (simp add: example_self_def example_remote_def)
  note t = get_all_profiles_mutates_records[OF h1 h2 h3 h4 h5, of 4294967297 False "[4294967297]"]
  from t have a: "has_key (fetched_all ?S IIDX 3 ! 0) ''cards''" by blast
  from t have b: "\<not> has_key ([[(''match'', PStr ''partial'')]] ! 0) ''cards''" by blast
  from t have c: "take (length (fetched_by_card ?S IIDX 3 4294967297))
     (snd (profile_request ?S IIDX 3 4294967297 False)) = fetched_by_card ?S IIDX 3 4294967297"
    by blast
  from t h6 have d: "take (length (fetched_by_cards ?S IIDX 3 [4294967297]))
     (snd (get_any_profiles ?S IIDX 3 [4294967297])) = fetched_by_cards ?S IIDX 3 [4294967297]"
    by blast
  from h5 have h5': "list_all (\<lambda>c. c \<notin> fst ` set (user_get_all_cards (user ?S))) [''B1'']"
    by (simp only: list_all_iff)
  show ?thesis by (intro conjI h1 h3 h5' a b e c h6 d)
qed

end
